theory Spec2Isabelle
  imports Main "HOL-Library.Word"
begin

unbundle bit_operations_syntax

section \<open>Machine types and errors\<close>

type_synonym byte = "8 word"
type_synonym uint32 = "32 word"
type_synonym uint64 = "64 word"

text \<open>
  Every way in which the Go program can fail is a value: a run-time panic (integer
  division by zero, a slice read out of range) or an \<open>error\<close> value returned by the
  HTTP client, the JSON decoder or the template engine.
\<close>

datatype error =
    DivideByZero
  | IndexOutOfRange
  | NetError string
  | SyntaxError
  | UnmarshalTypeError
  | TemplateError string

section \<open>crypto/sha1 and encoding/binary\<close>

text \<open>
  \<open>pokemonID\<close> calls \<open>sha1.New\<close>, \<open>Write\<close> and \<open>Sum(nil)\<close> of the Go standard
  library. The digest is modelled after the library's generic block function:
  a window of sixteen 32-bit words that slides over the message schedule, eighty rounds
  per 64-byte chunk, and the padding appended by \<open>checkSum\<close>.
\<close>

definition RotateLeft32 :: "uint32 \<Rightarrow> nat \<Rightarrow> uint32" where
  "RotateLeft32 x k = push_bit k x OR drop_bit (32 - k) x"

definition be_word32 :: "byte \<Rightarrow> byte \<Rightarrow> byte \<Rightarrow> byte \<Rightarrow> uint32" where
  "be_word32 b0 b1 b2 b3 =
     push_bit 24 (ucast b0) OR push_bit 16 (ucast b1) OR push_bit 8 (ucast b2) OR ucast b3"

fun load_words :: "byte list \<Rightarrow> uint32 list" where
  "load_words (b0 # b1 # b2 # b3 # bs) = be_word32 b0 b1 b2 b3 # load_words bs"
| "load_words _ = []"

definition round_f :: "nat \<Rightarrow> uint32 \<Rightarrow> uint32 \<Rightarrow> uint32 \<Rightarrow> uint32" where
  "round_f i b c d =
     (if i < 20 then (b AND c) OR (NOT b AND d)
      else if i < 40 then b XOR c XOR d
      else if i < 60 then ((b OR c) AND d) OR (b AND c)
      else b XOR c XOR d)"

definition round_K :: "nat \<Rightarrow> uint32" where
  "round_K i =
     (if i < 20 then 0x5A827999
      else if i < 40 then 0x6ED9EBA1
      else if i < 60 then 0x8F1BBCDC
      else 0xCA62C1D6)"

text \<open>
  The window \<open>w\<close> holds the schedule words \<open>i .. i + 15\<close>; the library keeps the same
  sixteen words in a ring indexed by \<open>i & 0xf\<close>.
\<close>

definition slide :: "uint32 list \<Rightarrow> uint32 list" where
  "slide w = tl w @ [RotateLeft32 (w ! 13 XOR w ! 8 XOR w ! 2 XOR w ! 0) 1]"

type_synonym sha1_regs = "uint32 \<times> uint32 \<times> uint32 \<times> uint32 \<times> uint32"

fun sha1_round :: "nat \<Rightarrow> uint32 list \<times> sha1_regs \<Rightarrow> uint32 list \<times> sha1_regs" where
  "sha1_round i (w, (a, b, c, d, e)) =
     (let t = RotateLeft32 a 5 + round_f i b c d + e + hd w + round_K i
      in (slide w, (t, a, RotateLeft32 b 30, c, d)))"

fun blockGeneric1 :: "sha1_regs \<Rightarrow> byte list \<Rightarrow> sha1_regs" where
  "blockGeneric1 (h0, h1, h2, h3, h4) p =
     (case snd (fold sha1_round [0..<80] (load_words p, (h0, h1, h2, h3, h4))) of
        (a, b, c, d, e) \<Rightarrow> (h0 + a, h1 + b, h2 + c, h3 + d, h4 + e))"

function blockGeneric :: "sha1_regs \<Rightarrow> byte list \<Rightarrow> sha1_regs" where
  "blockGeneric h p =
     (if 64 \<le> length p then blockGeneric (blockGeneric1 h (take 64 p)) (drop 64 p) else h)"
  by pat_completeness auto
termination
  by (relation "measure (\<lambda>(h, p). length p)") auto

declare blockGeneric.simps [simp del]

definition sha1_init :: sha1_regs where
  "sha1_init = (0x67452301, 0xEFCDAB89, 0x98BADCFE, 0x10325476, 0xC3D2E1F0)"

definition BePutUint32 :: "uint32 \<Rightarrow> byte list" where
  "BePutUint32 v = [ucast (drop_bit 24 v), ucast (drop_bit 16 v), ucast (drop_bit 8 v), ucast v]"

definition BePutUint64 :: "uint64 \<Rightarrow> byte list" where
  "BePutUint64 v =
     [ucast (drop_bit 56 v), ucast (drop_bit 48 v), ucast (drop_bit 40 v), ucast (drop_bit 32 v),
      ucast (drop_bit 24 v), ucast (drop_bit 16 v), ucast (drop_bit 8 v), ucast v]"

text \<open>
  \<open>checkSum\<close>: a 1 bit, zero bytes up to 56 modulo 64, then the message length in bits
  as a big-endian 64-bit word (the length counter is a \<open>uint64\<close> and wraps).
\<close>

definition sha1_padding :: "nat \<Rightarrow> byte list" where
  "sha1_padding len =
     (let t = (if len mod 64 < 56 then 56 - len mod 64 else 64 + 56 - len mod 64)
      in (0x80 # replicate (t - 1) 0) @ BePutUint64 (push_bit 3 (of_nat len)))"

definition sha1_Sum :: "byte list \<Rightarrow> byte list" where
  "sha1_Sum msg =
     (case blockGeneric sha1_init (msg @ sha1_padding (length msg)) of
        (h0, h1, h2, h3, h4) \<Rightarrow>
          BePutUint32 h0 @ BePutUint32 h1 @ BePutUint32 h2 @ BePutUint32 h3 @ BePutUint32 h4)"

text \<open>
  \<open>binary.BigEndian.Uint64\<close> reads \<open>b[7]\<close> first as a bounds check, so a slice shorter
  than eight bytes panics.
\<close>

fun BigEndian_Uint64 :: "byte list \<Rightarrow> error + uint64" where
  "BigEndian_Uint64 (b0 # b1 # b2 # b3 # b4 # b5 # b6 # b7 # bs) =
     Inr (ucast b7 OR push_bit 8 (ucast b6) OR push_bit 16 (ucast b5) OR push_bit 24 (ucast b4)
          OR push_bit 32 (ucast b3) OR push_bit 40 (ucast b2) OR push_bit 48 (ucast b1)
          OR push_bit 56 (ucast b0))"
| "BigEndian_Uint64 _ = Inl IndexOutOfRange"

section \<open>The name hasher\<close>

text \<open>
  A Go \<open>string\<close> is a sequence of bytes, as a HOL \<open>string\<close> is; \<open>[]byte(name)\<close> is the
  conversion of each character to its byte.
\<close>

definition bytes_of :: "string \<Rightarrow> byte list" where
  "bytes_of s = map of_char s"

text \<open>The remainder \<open>%\<close> on \<open>uint64\<close> panics when the divisor is zero.\<close>

definition pokemonID :: "string \<Rightarrow> uint64 \<Rightarrow> error + uint64" where
  "pokemonID name m =
     (case BigEndian_Uint64 (sha1_Sum (bytes_of name)) of
        Inl e \<Rightarrow> Inl e
      | Inr v \<Rightarrow> if m = 0 then Inl DivideByZero else Inr (v mod m + 1))"

text \<open>
  The specification's reading of the same function: the first eight digest bytes as a
  big-endian number, reduced modulo the modulus, plus one.
\<close>

definition be_nat :: "byte list \<Rightarrow> nat" where
  "be_nat bs = foldl (\<lambda>acc b. acc * 256 + unat b) 0 bs"

definition id_spec :: "string \<Rightarrow> nat \<Rightarrow> nat" where
  "id_spec name m = be_nat (take 8 (sha1_Sum (bytes_of name))) mod m + 1"

section \<open>encoding/json\<close>

text \<open>
  The two fetch functions decode upstream responses with \<open>json.NewDecoder(...).Decode\<close>.
  The decoder is modelled after the package documentation. A response body either begins
  with a syntactically valid JSON value or it does not; in the second case \<open>Decode\<close>
  returns a syntax error and leaves the target untouched. A number literal written as an
  integer is \<open>JNum\<close>; one with a fraction or an exponent is \<open>JFrac\<close> (it never fits a
  Go \<open>int\<close>). An object is the list of its members in document order.
\<close>

datatype json =
    JNull
  | JBool bool
  | JNum int
  | JFrac
  | JStr string
  | JArr "json list"
  | JObj "(string \<times> json) list"

datatype body = Garbage | Document json

type_synonym 'a decoded = "'a \<times> error option"

text \<open>\<open>Decode\<close> reports the earliest type error and carries on with the other members.\<close>

definition first_error :: "error option \<Rightarrow> error option \<Rightarrow> error option" where
  "first_error a b = (case a of None \<Rightarrow> b | Some e \<Rightarrow> Some e)"

text \<open>
  Object keys are matched to struct tags without regard to case. All tags of this program
  are ASCII, so folding a key means: upper-case the ASCII letters, and map the two
  non-ASCII letters whose case folding is ASCII (U+017F, long s, and U+212A, the Kelvin
  sign) to \<open>S\<close> and \<open>K\<close>. Any other byte stays and keeps the key from matching.
\<close>

definition ascii_upper :: "char \<Rightarrow> char" where
  "ascii_upper c =
     (let n = of_char c :: nat in if 97 \<le> n \<and> n \<le> 122 then char_of (n - 32) else c)"

fun fold_key :: "string \<Rightarrow> string" where
  "fold_key (c # d # e # cs) =
     (if c = CHR 0xE2 \<and> d = CHR 0x84 \<and> e = CHR 0xAA
        then CHR ''K'' # fold_key cs
      else if c = CHR 0xC5 \<and> d = CHR 0xBF
        then CHR ''S'' # fold_key (e # cs)
      else ascii_upper c # fold_key (d # e # cs))"
| "fold_key [c, d] =
     (if c = CHR 0xC5 \<and> d = CHR 0xBF then [CHR ''S'']
      else ascii_upper c # fold_key [d])"
| "fold_key [c] = [ascii_upper c]"
| "fold_key [] = []"

definition key_matches :: "string \<Rightarrow> string \<Rightarrow> bool" where
  "key_matches tag k = (fold_key k = map ascii_upper tag)"

fun dec_string :: "json \<Rightarrow> string \<Rightarrow> string decoded" where
  "dec_string (JStr s) old = (s, None)"
| "dec_string JNull old = (old, None)"
| "dec_string _ old = (old, Some UnmarshalTypeError)"

text \<open>A Go \<open>int\<close> has 64 bits on the platform of the Dockerfile.\<close>

fun dec_int :: "json \<Rightarrow> int \<Rightarrow> int decoded" where
  "dec_int (JNum n) old =
     (if - (2 ^ 63) \<le> n \<and> n < 2 ^ 63 then (n, None) else (old, Some UnmarshalTypeError))"
| "dec_int JNull old = (old, None)"
| "dec_int _ old = (old, Some UnmarshalTypeError)"

text \<open>
  A struct is decoded member by member, in document order, each member into the field
  it matches; \<open>field k v s\<close> is the struct \<open>s\<close> after member \<open>k: v\<close>. Members that
  match no field are skipped.
\<close>

fun dec_members ::
  "(string \<Rightarrow> json \<Rightarrow> 's \<Rightarrow> 's decoded) \<Rightarrow> (string \<times> json) list \<Rightarrow> 's \<Rightarrow> 's decoded" where
  "dec_members field [] s = (s, None)"
| "dec_members field ((k, v) # kvs) s =
     (case field k v s of (s1, e1) \<Rightarrow>
        (case dec_members field kvs s1 of (s2, e2) \<Rightarrow> (s2, first_error e1 e2)))"

fun dec_struct :: "(string \<Rightarrow> json \<Rightarrow> 's \<Rightarrow> 's decoded) \<Rightarrow> json \<Rightarrow> 's \<Rightarrow> 's decoded" where
  "dec_struct field (JObj kvs) s = dec_members field kvs s"
| "dec_struct field JNull s = (s, None)"
| "dec_struct field _ s = (s, Some UnmarshalTypeError)"

text \<open>
  A JSON array is decoded element by element into the slice: the \<open>i\<close>-th element into
  the \<open>i\<close>-th element the slice already has (as happens when an object repeats an array
  member), or into a zero value \<open>z\<close> where the slice is shorter; the slice ends up as long
  as the array. \<open>null\<close> sets the slice to nil.
\<close>

fun dec_elements ::
  "(json \<Rightarrow> 'a \<Rightarrow> 'a decoded) \<Rightarrow> 'a \<Rightarrow> json list \<Rightarrow> 'a list \<Rightarrow> 'a list decoded" where
  "dec_elements d z [] old = ([], None)"
| "dec_elements d z (x # xs) old =
     (case d x (case old of [] \<Rightarrow> z | y # ys \<Rightarrow> y) of (a, e1) \<Rightarrow>
        (case dec_elements d z xs (tl old) of (as, e2) \<Rightarrow> (a # as, first_error e1 e2)))"

fun dec_slice ::
  "(json \<Rightarrow> 'a \<Rightarrow> 'a decoded) \<Rightarrow> 'a \<Rightarrow> json \<Rightarrow> 'a list \<Rightarrow> 'a list decoded" where
  "dec_slice d z (JArr xs) old = dec_elements d z xs old"
| "dec_slice d z JNull old = ([], None)"
| "dec_slice d z _ old = (old, Some UnmarshalTypeError)"

fun Decode :: "(json \<Rightarrow> 's \<Rightarrow> 's decoded) \<Rightarrow> body \<Rightarrow> 's \<Rightarrow> 's decoded" where
  "Decode d Garbage s = (s, Some SyntaxError)"
| "Decode d (Document j) s = d j s"

text \<open>
  A struct with a single field is represented by that field: \<open>field1 tag d\<close> is its
  member function, and the field names of the records below spell the path, so
  \<open>Species_URL\<close> is \<open>poke.Species.URL\<close>.
\<close>

definition field1 ::
  "string \<Rightarrow> (json \<Rightarrow> 'a \<Rightarrow> 'a decoded) \<Rightarrow> string \<Rightarrow> json \<Rightarrow> 'a \<Rightarrow> 'a decoded" where
  "field1 tag d k v s = (if key_matches tag k then d v s else (s, None))"

section \<open>The PokeAPI structs\<close>

record stat_entry =
  BaseStat :: int
  Stat_Name :: string

record pokeAPIResponse =
  Name :: string
  Types :: "string list"
  Stats :: "stat_entry list"
  Sprites_Other_Official_Front :: string
  Species_URL :: string

record pokemonData =
  data_Name :: string
  data_Types :: "string list"
  data_Stats :: "string \<rightharpoonup> int"
  data_Sprite :: string
  data_Evolutions :: "string list"

definition stat_entry_zero :: stat_entry where
  "stat_entry_zero = \<lparr>BaseStat = 0, Stat_Name = []\<rparr>"

definition pokeAPIResponse_zero :: pokeAPIResponse where
  "pokeAPIResponse_zero =
     \<lparr>Name = [], Types = [], Stats = [], Sprites_Other_Official_Front = [], Species_URL = []\<rparr>"

definition pokemonData_zero :: pokemonData where
  "pokemonData_zero =
     \<lparr>data_Name = [], data_Types = [], data_Stats = Map.empty, data_Sprite = [],
      data_Evolutions = []\<rparr>"

definition stat_entry_field :: "string \<Rightarrow> json \<Rightarrow> stat_entry \<Rightarrow> stat_entry decoded" where
  "stat_entry_field k v s =
     (if key_matches ''base_stat'' k
        then (case dec_int v (BaseStat s) of (n, e) \<Rightarrow> (s\<lparr>BaseStat := n\<rparr>, e))
      else if key_matches ''stat'' k
        then (case dec_struct (field1 ''name'' dec_string) v (Stat_Name s) of
                (n, e) \<Rightarrow> (s\<lparr>Stat_Name := n\<rparr>, e))
      else (s, None))"

definition pokeAPIResponse_field ::
  "string \<Rightarrow> json \<Rightarrow> pokeAPIResponse \<Rightarrow> pokeAPIResponse decoded" where
  "pokeAPIResponse_field k v p =
     (if key_matches ''name'' k
        then (case dec_string v (Name p) of (n, e) \<Rightarrow> (p\<lparr>Name := n\<rparr>, e))
      else if key_matches ''types'' k
        then (case dec_slice (dec_struct (field1 ''type'' (dec_struct (field1 ''name'' dec_string))))
                     [] v (Types p) of
                (ts, e) \<Rightarrow> (p\<lparr>Types := ts\<rparr>, e))
      else if key_matches ''stats'' k
        then (case dec_slice (dec_struct stat_entry_field) stat_entry_zero v (Stats p) of
                (ss, e) \<Rightarrow> (p\<lparr>Stats := ss\<rparr>, e))
      else if key_matches ''sprites'' k
        then (case dec_struct (field1 ''other'' (dec_struct (field1 ''official-artwork''
                     (dec_struct (field1 ''front_default'' dec_string)))))
                     v (Sprites_Other_Official_Front p) of
                (f, e) \<Rightarrow> (p\<lparr>Sprites_Other_Official_Front := f\<rparr>, e))
      else if key_matches ''species'' k
        then (case dec_struct (field1 ''url'' dec_string) v (Species_URL p) of
                (u, e) \<Rightarrow> (p\<lparr>Species_URL := u\<rparr>, e))
      else (p, None))"

text \<open>The two anonymous structs of \<open>fetchEvolutions\<close>.\<close>

definition dec_species :: "json \<Rightarrow> string \<Rightarrow> string decoded" where
  "dec_species = dec_struct (field1 ''evolution_chain'' (dec_struct (field1 ''url'' dec_string)))"

record chain_evolution =
  e_Species_Name :: string
  e_EvolvesTo :: "string list"

record chain_root =
  Chain_Species_Name :: string
  Chain_EvolvesTo :: "chain_evolution list"

definition chain_evolution_zero :: chain_evolution where
  "chain_evolution_zero = \<lparr>e_Species_Name = [], e_EvolvesTo = []\<rparr>"

definition chain_root_zero :: chain_root where
  "chain_root_zero = \<lparr>Chain_Species_Name = [], Chain_EvolvesTo = []\<rparr>"

definition dec_species_name :: "json \<Rightarrow> string \<Rightarrow> string decoded" where
  "dec_species_name = dec_struct (field1 ''species'' (dec_struct (field1 ''name'' dec_string)))"

definition chain_evolution_field ::
  "string \<Rightarrow> json \<Rightarrow> chain_evolution \<Rightarrow> chain_evolution decoded" where
  "chain_evolution_field k v c =
     (if key_matches ''species'' k
        then (case dec_struct (field1 ''name'' dec_string) v (e_Species_Name c) of
                (n, e) \<Rightarrow> (c\<lparr>e_Species_Name := n\<rparr>, e))
      else if key_matches ''evolves_to'' k
        then (case dec_slice dec_species_name [] v (e_EvolvesTo c) of
                (fs, e) \<Rightarrow> (c\<lparr>e_EvolvesTo := fs\<rparr>, e))
      else (c, None))"

definition chain_root_field :: "string \<Rightarrow> json \<Rightarrow> chain_root \<Rightarrow> chain_root decoded" where
  "chain_root_field k v c =
     (if key_matches ''species'' k
        then (case dec_struct (field1 ''name'' dec_string) v (Chain_Species_Name c) of
                (n, e) \<Rightarrow> (c\<lparr>Chain_Species_Name := n\<rparr>, e))
      else if key_matches ''evolves_to'' k
        then (case dec_slice (dec_struct chain_evolution_field) chain_evolution_zero v
                     (Chain_EvolvesTo c) of
                (es, e) \<Rightarrow> (c\<lparr>Chain_EvolvesTo := es\<rparr>, e))
      else (c, None))"

definition dec_chain :: "json \<Rightarrow> chain_root \<Rightarrow> chain_root decoded" where
  "dec_chain = dec_struct (field1 ''chain'' (dec_struct chain_root_field))"

section \<open>net/http as seen by the program\<close>

text \<open>
  The outside world answers each \<open>http.Get\<close>: the \<open>n\<close>-th request, to a given URL,
  either fails with a transport error or yields a response body (whatever its status
  code: \<open>http.Get\<close> reports no error for a 404). A URL without a scheme is refused by
  the client before anything is sent; the only such URL the program can produce is the
  empty one, the zero value of a URL field that was not decoded.
\<close>

record world =
  clock :: nat
  respond :: "nat \<Rightarrow> string \<Rightarrow> error + body"

definition http_Get :: "world \<Rightarrow> string \<Rightarrow> (error + body) \<times> world" where
  "http_Get w url =
     (if url = [] then (Inl (NetError ''unsupported protocol scheme''), w)
      else (respond w (clock w) url, w\<lparr>clock := Suc (clock w)\<rparr>))"

section \<open>The evolution flattener and the data fetcher\<close>

text \<open>The two nested \<open>range\<close> loops of \<open>fetchEvolutions\<close>, appending to \<open>evols\<close>.\<close>

fun append_second_stage :: "string list \<Rightarrow> string list \<Rightarrow> string list" where
  "append_second_stage evols [] = evols"
| "append_second_stage evols (f # fs) = append_second_stage (evols @ [f]) fs"

fun append_first_stage :: "string list \<Rightarrow> chain_evolution list \<Rightarrow> string list" where
  "append_first_stage evols [] = evols"
| "append_first_stage evols (e # es) =
     append_first_stage (append_second_stage (evols @ [e_Species_Name e]) (e_EvolvesTo e)) es"

definition flatten :: "chain_root \<Rightarrow> string list" where
  "flatten c = append_first_stage [Chain_Species_Name c] (Chain_EvolvesTo c)"

text \<open>
  \<open>fetchEvolutions\<close> returns nil when either request fails. The error results of both
  \<open>Decode\<close> calls are discarded: the function goes on with whatever was decoded.
\<close>

definition fetchEvolutions :: "world \<Rightarrow> string \<Rightarrow> string list \<times> world" where
  "fetchEvolutions w speciesURL =
     (case http_Get w speciesURL of
        (Inl err, w1) \<Rightarrow> ([], w1)
      | (Inr resp, w1) \<Rightarrow>
          (let species_EvolutionChain_URL = fst (Decode dec_species resp [])
           in case http_Get w1 species_EvolutionChain_URL of
                (Inl err, w2) \<Rightarrow> ([], w2)
              | (Inr resp2, w2) \<Rightarrow>
                  (let chain = fst (Decode dec_chain resp2 chain_root_zero)
                   in (flatten chain, w2))))"

text \<open>\<open>fmt.Sprintf("%d", id)\<close>: the decimal digits of an unsigned number.\<close>

definition digit_char :: "nat \<Rightarrow> char" where
  "digit_char d = char_of (48 + d)"

function format_decimal :: "nat \<Rightarrow> string" where
  "format_decimal n =
     (if n < 10 then [digit_char n] else format_decimal (n div 10) @ [digit_char (n mod 10)])"
  by pat_completeness auto
termination
  by (relation "measure id") auto

declare format_decimal.simps [simp del]

definition pokemon_url :: "uint64 \<Rightarrow> string" where
  "pokemon_url pid = ''https://pokeapi.co/api/v2/pokemon/'' @ format_decimal (unat pid)"

text \<open>The two \<open>range\<close> loops of \<open>fetchPokemon\<close>: the map of stats and the list of types.\<close>

fun stats_loop :: "(string \<rightharpoonup> int) \<Rightarrow> stat_entry list \<Rightarrow> (string \<rightharpoonup> int)" where
  "stats_loop m [] = m"
| "stats_loop m (s # ss) = stats_loop (m(Stat_Name s \<mapsto> BaseStat s)) ss"

fun types_loop :: "string list \<Rightarrow> string list \<Rightarrow> string list" where
  "types_loop acc [] = acc"
| "types_loop acc (t # ts) = types_loop (acc @ [t]) ts"

text \<open>
  \<open>fetchPokemon\<close> returns a record and an error, as the Go function does: on an error the
  record is the zero value it was declared with.
\<close>

definition fetchPokemon :: "world \<Rightarrow> uint64 \<Rightarrow> (pokemonData \<times> error option) \<times> world" where
  "fetchPokemon w pid =
     (case http_Get w (pokemon_url pid) of
        (Inl err, w1) \<Rightarrow> ((pokemonData_zero, Some err), w1)
      | (Inr resp, w1) \<Rightarrow>
          (case Decode (dec_struct pokeAPIResponse_field) resp pokeAPIResponse_zero of
             (poke, Some err) \<Rightarrow> ((pokemonData_zero, Some err), w1)
           | (poke, None) \<Rightarrow>
               (case fetchEvolutions w1 (Species_URL poke) of
                  (evols, w2) \<Rightarrow>
                    ((\<lparr>data_Name = Name poke,
                       data_Types = types_loop [] (Types poke),
                       data_Stats = stats_loop Map.empty (Stats poke),
                       data_Sprite = Sprites_Other_Official_Front poke,
                       data_Evolutions = evols\<rparr>, None), w2))))"

section \<open>The request handler\<close>

text \<open>
  The template helper \<open>title\<close> upper-cases \<open>s[:1]\<close>, the first byte of the string.
  \<open>ToUpper_byte c\<close> is \<open>strings.ToUpper\<close> of the one-byte string \<open>c\<close>: an ASCII letter
  is upper-cased, any other ASCII byte is kept, and a byte from 0x80 on, which alone is
  not valid UTF-8, comes out as the replacement character U+FFFD (three bytes).
\<close>

definition ToUpper_byte :: "char \<Rightarrow> string" where
  "ToUpper_byte c =
     (if (of_char c :: nat) < 128 then [ascii_upper c]
      else [CHR 0xEF, CHR 0xBF, CHR 0xBD])"

definition title :: "string \<Rightarrow> string" where
  "title s = (if s = [] then [] else ToUpper_byte (hd s) @ tl s)"

record indexTemplateParams =
  p_Name :: string
  p_Version :: string
  p_PokemonID :: uint64
  p_PokemonName :: string
  p_Types :: "string list"
  p_Stats :: "string \<rightharpoonup> int"
  p_Evolutions :: "string list"
  p_PokemonSprite :: string

text \<open>
  The template \<open>index.tmpl.html\<close> is embedded when the program is built; its content is
  a parameter here. A parsed template is a function of the helper it was given and of
  the parameters: the text it writes and the error, if any, at which it stops. The
  process owns its environment variables and the result of parsing the embedded
  template.
\<close>

type_synonym template = "(string \<Rightarrow> string) \<Rightarrow> indexTemplateParams \<Rightarrow> string \<times> error option"

record process =
  Getenv :: "string \<Rightarrow> string"
  ParseFS :: "error + template"

definition env :: "process \<Rightarrow> string \<Rightarrow> string \<Rightarrow> string" where
  "env ps name def = (if Getenv ps name \<noteq> [] then Getenv ps name else def)"

text \<open>
  A \<open>ResponseWriter\<close>: the status code once it is written, and what was written to the
  body. The first \<open>Write\<close> sends status 200 unless a status was sent before; a second
  \<open>WriteHeader\<close> has no effect. \<open>http.Error\<close> sends the status and then the error text
  as a line.
\<close>

datatype chunk = Html string | ErrorLine error

record ResponseWriter =
  status :: "nat option"
  written :: "chunk list"

definition WriteHeader :: "ResponseWriter \<Rightarrow> nat \<Rightarrow> ResponseWriter" where
  "WriteHeader rw code = (case status rw of None \<Rightarrow> rw\<lparr>status := Some code\<rparr> | Some c \<Rightarrow> rw)"

definition Write :: "ResponseWriter \<Rightarrow> chunk \<Rightarrow> ResponseWriter" where
  "Write rw c = (WriteHeader rw 200)\<lparr>written := written rw @ [c]\<rparr>"

definition http_Error :: "ResponseWriter \<Rightarrow> error \<Rightarrow> nat \<Rightarrow> ResponseWriter" where
  "http_Error rw err code = Write (WriteHeader rw code) (ErrorLine err)"

definition Execute :: "template \<Rightarrow> ResponseWriter \<Rightarrow> indexTemplateParams \<Rightarrow> ResponseWriter \<times> error option" where
  "Execute tmpl rw params =
     (case tmpl title params of
        (text, err) \<Rightarrow> ((if text = [] then rw else Write rw (Html text)), err))"

text \<open>The server sends status 200 when the handler returns without having sent one.\<close>

definition final_status :: "ResponseWriter \<Rightarrow> nat" where
  "final_status rw = (case status rw of None \<Rightarrow> 200 | Some c \<Rightarrow> c)"

record request =
  query :: "(string \<times> string) list"

text \<open>\<open>r.URL.Query().Get(key)\<close>: the first value of the key, or the empty string.\<close>

fun Query_Get :: "(string \<times> string) list \<Rightarrow> string \<Rightarrow> string" where
  "Query_Get [] key = []"
| "Query_Get ((k, v) # q) key = (if k = key then v else Query_Get q key)"

text \<open>The name a request asks for: the query parameter, or the default when it is empty.\<close>

definition request_name :: "request \<Rightarrow> string" where
  "request_name r =
     (let name = Query_Get (query r) ''name'' in if name = [] then ''cafard'' else name)"

definition page_params :: "process \<Rightarrow> string \<Rightarrow> uint64 \<Rightarrow> pokemonData \<Rightarrow> indexTemplateParams" where
  "page_params ps name pid poke =
     \<lparr>p_Name = name,
      p_Version = env ps ''VERSION'' ''cafard-edition'',
      p_PokemonID = pid,
      p_PokemonName = data_Name poke,
      p_Types = data_Types poke,
      p_Stats = data_Stats poke,
      p_Evolutions = data_Evolutions poke,
      p_PokemonSprite = data_Sprite poke\<rparr>"

text \<open>
  The handler. \<open>Inl\<close> is a panic of the handler (only \<open>pokemonID\<close> could panic);
  otherwise the result is the response writer when the handler returns.
\<close>

definition index :: "process \<Rightarrow> world \<Rightarrow> request \<Rightarrow> (error + ResponseWriter) \<times> world" where
  "index ps w r =
     (let w0 = \<lparr>status = None, written = []\<rparr>;
          name = request_name r
      in case ParseFS ps of
           Inl err \<Rightarrow> (Inr (http_Error w0 err 500), w)
         | Inr tmpl \<Rightarrow>
             (case pokemonID name 151 of
                Inl p \<Rightarrow> (Inl p, w)
              | Inr pid \<Rightarrow>
                  (case fetchPokemon w pid of
                     ((poke, Some err), w1) \<Rightarrow> (Inr (http_Error w0 err 500), w1)
                   | ((poke, None), w1) \<Rightarrow>
                       (case Execute tmpl w0 (page_params ps name pid poke) of
                          (w0', Some err) \<Rightarrow> (Inr (http_Error w0' err 500), w1)
                        | (w0', None) \<Rightarrow> (Inr w0', w1)))))"

section \<open>Notions used in the statements\<close>

text \<open>An object has a member for a tag when one of its keys matches the tag.\<close>

fun has_member :: "string \<Rightarrow> (string \<times> json) list \<Rightarrow> bool" where
  "has_member tag [] = False"
| "has_member tag ((k, v) # kvs) = (key_matches tag k \<or> has_member tag kvs)"

text \<open>
  Step (1) of the fetcher fails when the detail request fails or its response does not
  decode. \<open>evolution_request_fails\<close> says that one of the two requests of steps (2) and
  (3) returns an error; a response that arrives and does not decode is not counted here.
\<close>

definition detail_fetch_fails :: "world \<Rightarrow> uint64 \<Rightarrow> bool" where
  "detail_fetch_fails w pid =
     (case http_Get w (pokemon_url pid) of
        (Inl e, w1) \<Rightarrow> True
      | (Inr resp, w1) \<Rightarrow>
          snd (Decode (dec_struct pokeAPIResponse_field) resp pokeAPIResponse_zero) \<noteq> None)"

definition evolution_request_fails :: "world \<Rightarrow> string \<Rightarrow> bool" where
  "evolution_request_fails w url =
     (case http_Get w url of
        (Inl e, w1) \<Rightarrow> True
      | (Inr resp, w1) \<Rightarrow>
          (case http_Get w1 (fst (Decode dec_species resp [])) of
             (Inl e, w2) \<Rightarrow> True
           | (Inr resp2, w2) \<Rightarrow> False))"

section \<open>Sample upstream data\<close>

definition detail_doc :: json where
  "detail_doc = JObj
     [(''name'', JStr ''bulbasaur''),
      (''types'', JArr [JObj [(''type'', JObj [(''name'', JStr ''grass'')])],
                        JObj [(''type'', JObj [(''name'', JStr ''poison'')])]]),
      (''stats'', JArr [JObj [(''base_stat'', JNum 45), (''stat'', JObj [(''name'', JStr ''hp'')])],
                        JObj [(''base_stat'', JNum 49), (''stat'', JObj [(''name'', JStr ''attack'')])],
                        JObj [(''base_stat'', JNum 50), (''stat'', JObj [(''name'', JStr ''hp'')])]]),
      (''sprites'', JObj [(''other'', JObj [(''official-artwork'',
                        JObj [(''front_default'', JStr ''https://img.example/1.png'')])])]),
      (''species'', JObj [(''url'', JStr ''https://pokeapi.co/api/v2/pokemon-species/1/'')])]"

definition species_doc :: json where
  "species_doc = JObj
     [(''evolution_chain'', JObj [(''url'', JStr ''https://pokeapi.co/api/v2/evolution-chain/1/'')])]"

text \<open>A chain with two branches and one species nested a level deeper than the structs go.\<close>

definition chain_doc :: json where
  "chain_doc = JObj
     [(''chain'', JObj
        [(''species'', JObj [(''name'', JStr ''base'')]),
         (''evolves_to'', JArr
            [JObj [(''species'', JObj [(''name'', JStr ''A'')]),
                   (''evolves_to'', JArr
                      [JObj [(''species'', JObj [(''name'', JStr ''A1'')]),
                             (''evolves_to'', JArr
                                [JObj [(''species'', JObj [(''name'', JStr ''deep'')])]])]])],
             JObj [(''species'', JObj [(''name'', JStr ''B'')]),
                   (''evolves_to'', JArr [])]])])]"

definition sparse_doc :: json where
  "sparse_doc = JObj [(''id'', JNum 1)]"

text \<open>The detail request is answered; every later request fails.\<close>

definition upstream_detail_only :: world where
  "upstream_detail_only =
     \<lparr>clock = 0,
      respond = (\<lambda>n url. if n = 0 then Inr (Document detail_doc) else Inl (NetError ''timeout''))\<rparr>"

text \<open>The species request is answered; the chain request returns a body that is not JSON.\<close>

definition upstream_garbage_chain :: world where
  "upstream_garbage_chain =
     \<lparr>clock = 0,
      respond = (\<lambda>n url. if n = 0 then Inr (Document species_doc) else Inr Garbage)\<rparr>"

text \<open>
  The detail and the species requests are answered; the chain request returns a body that
  is not JSON.
\<close>

definition upstream_unparseable_chain :: world where
  "upstream_unparseable_chain =
     \<lparr>clock = 0,
      respond = (\<lambda>n url. if n = 0 then Inr (Document detail_doc)
                          else if n = 1 then Inr (Document species_doc)
                          else Inr Garbage)\<rparr>"

text \<open>Every request is answered by an object with none of the expected members.\<close>

definition upstream_sparse :: world where
  "upstream_sparse = \<lparr>clock = 0, respond = (\<lambda>n url. Inr (Document sparse_doc))\<rparr>"

text \<open>The species request is answered in full, the chain request by the sparse object.\<close>

definition upstream_sparse_chain :: world where
  "upstream_sparse_chain =
     \<lparr>clock = 0,
      respond = (\<lambda>n url. if n = 0 then Inr (Document species_doc)
                          else Inr (Document sparse_doc))\<rparr>"

text \<open>A process with no environment variable set and a template that prints the title-cased
  species name.\<close>

definition process_example :: process where
  "process_example =
     \<lparr>Getenv = (\<lambda>name. []),
      ParseFS = Inr (\<lambda>helper params. (helper (p_PokemonName params), None))\<rparr>"

text \<open>The same with a template that also prints each evolution between brackets.\<close>

definition process_listing :: process where
  "process_listing =
     \<lparr>Getenv = (\<lambda>name. []),
      ParseFS = Inr (\<lambda>helper params.
        (helper (p_PokemonName params) @
           concat (map (\<lambda>e. '' ['' @ e @ '']'') (p_Evolutions params)), None))\<rparr>"

section \<open>Properties of the name hasher\<close>

lemma length_BePutUint32: "length (BePutUint32 v) = 4"
  by (simp add: BePutUint32_def)

lemma length_sha1_Sum: "length (sha1_Sum msg) = 20"
  by (simp add: sha1_Sum_def length_BePutUint32 split: prod.split)

lemma be_nat_snoc: "be_nat (bs @ [b]) = be_nat bs * 256 + unat b"
  by (simp add: be_nat_def)

lemma be_nat_bound: "be_nat bs < 256 ^ length bs"
proof (induction bs rule: rev_induct)
  case Nil
  show ?case by (simp add: be_nat_def)
next
  case (snoc b bs)
  have "unat b < 256" using unsigned_less [of b] by simp
  with snoc show ?case by (simp add: be_nat_snoc)
qed

lemma shift_or_byte:
  fixes x :: uint64 and b :: byte
  shows "push_bit 8 x OR ucast b = x * 256 + ucast b"
proof -
  have "push_bit 8 x + ucast b = push_bit 8 x OR ucast b"
    by (rule disjunctive_add_eq_or) (auto simp: bit_eq_iff bit_simps dest: bit_imp_le_length)
  then show ?thesis by (simp add: push_bit_eq_mult)
qed

lemma or_chain_nested:
  fixes b0 :: byte
  shows "(ucast b7 OR push_bit 8 (ucast b6) OR push_bit 16 (ucast b5) OR push_bit 24 (ucast b4)
          OR push_bit 32 (ucast b3) OR push_bit 40 (ucast b2) OR push_bit 48 (ucast b1)
          OR push_bit 56 (ucast b0) :: uint64) =
   push_bit 8 (push_bit 8 (push_bit 8 (push_bit 8 (push_bit 8 (push_bit 8 (push_bit 8
     (ucast b0) OR ucast b1) OR ucast b2) OR ucast b3) OR ucast b4) OR ucast b5) OR ucast b6)
     OR ucast b7"
  by (simp add: push_bit_or push_bit_push_bit ac_simps)

lemma or_chain_be_nat:
  fixes b0 :: byte
  shows "(ucast b7 OR push_bit 8 (ucast b6) OR push_bit 16 (ucast b5) OR push_bit 24 (ucast b4)
          OR push_bit 32 (ucast b3) OR push_bit 40 (ucast b2) OR push_bit 48 (ucast b1)
          OR push_bit 56 (ucast b0) :: uint64) =
    of_nat (be_nat [b0, b1, b2, b3, b4, b5, b6, b7])"
  unfolding or_chain_nested shift_or_byte by (simp add: be_nat_def)

lemma eight_bytes:
  assumes "8 \<le> length bs"
  obtains b0 b1 b2 b3 b4 b5 b6 b7 rest where "bs = b0 # b1 # b2 # b3 # b4 # b5 # b6 # b7 # rest"
proof -
  from assms obtain b0 r0 where 0: "bs = b0 # r0" "7 \<le> length r0" by (cases bs) auto
  then obtain b1 r1 where 1: "r0 = b1 # r1" "6 \<le> length r1" by (cases r0) auto
  then obtain b2 r2 where 2: "r1 = b2 # r2" "5 \<le> length r2" by (cases r1) auto
  then obtain b3 r3 where 3: "r2 = b3 # r3" "4 \<le> length r3" by (cases r2) auto
  then obtain b4 r4 where 4: "r3 = b4 # r4" "3 \<le> length r4" by (cases r3) auto
  then obtain b5 r5 where 5: "r4 = b5 # r5" "2 \<le> length r5" by (cases r4) auto
  then obtain b6 r6 where 6: "r5 = b6 # r6" "1 \<le> length r6" by (cases r5) auto
  then obtain b7 r7 where 7: "r6 = b7 # r7" by (cases r6) auto
  from 0 1 2 3 4 5 6 7 that show thesis by simp
qed

lemma BigEndian_Uint64_be_nat:
  assumes "8 \<le> length bs"
  shows "BigEndian_Uint64 bs = Inr (of_nat (be_nat (take 8 bs)))"
proof -
  from assms obtain b0 b1 b2 b3 b4 b5 b6 b7 rest
    where bs: "bs = b0 # b1 # b2 # b3 # b4 # b5 # b6 # b7 # rest"
    by (rule eight_bytes)
  have "BigEndian_Uint64 bs = Inr (of_nat (be_nat [b0, b1, b2, b3, b4, b5, b6, b7]))"
    unfolding bs by (simp only: BigEndian_Uint64.simps or_chain_be_nat)
  moreover have "take 8 bs = [b0, b1, b2, b3, b4, b5, b6, b7]"
    unfolding bs by simp
  ultimately show ?thesis by simp
qed

lemma be_nat_take8_bound: "be_nat (take 8 bs) < 2 ^ 64"
proof -
  have "be_nat (take 8 bs) < 256 ^ length (take 8 bs)" by (rule be_nat_bound)
  also have "\<dots> \<le> (256::nat) ^ 8" by (rule power_increasing) simp_all
  finally show ?thesis by simp
qed

lemma digest_word:
  "BigEndian_Uint64 (sha1_Sum msg) = Inr (of_nat (be_nat (take 8 (sha1_Sum msg))))"
  by (rule BigEndian_Uint64_be_nat) (simp add: length_sha1_Sum)

lemma unat_digest_word:
  "unat (of_nat (be_nat (take 8 bs)) :: uint64) = be_nat (take 8 bs)"
  using be_nat_take8_bound [of bs] by (intro of_nat_inverse [OF refl]) simp

lemma pokemonID_nonzero:
  assumes "m \<noteq> 0"
  shows "pokemonID name m = Inr (of_nat (be_nat (take 8 (sha1_Sum (bytes_of name)))) mod m + 1)"
  using assms by (simp add: pokemonID_def digest_word)

lemma unat_mod_succ:
  fixes v m :: uint64
  assumes "m \<noteq> 0"
  shows "unat (v mod m + 1) = unat v mod unat m + 1"
proof -
  have "unat (v mod m) < unat m"
    using assms by (simp add: unat_mod_distrib unat_gt_0)
  moreover have "unat m < 2 ^ 64" using unsigned_less [of m] by simp
  ultimately have "unat (v mod m) + unat (1::uint64) < 2 ^ LENGTH(64)" by simp
  then have "unat (v mod m + 1) = unat (v mod m) + unat (1::uint64)"
    by (simp only: unat_add_lem [THEN iffD1])
  then show ?thesis by (simp add: unat_mod_distrib)
qed

lemma mod_succ_range:
  fixes v m :: uint64
  assumes "m \<noteq> 0"
  shows "1 \<le> v mod m + 1" and "v mod m + 1 \<le> m"
proof -
  have u: "unat (v mod m + 1) = unat v mod unat m + 1" using assms by (rule unat_mod_succ)
  have "0 < unat m" using assms by (simp add: unat_gt_0)
  then have lt: "unat v mod unat m < unat m" by simp
  have "unat (1::uint64) \<le> unat (v mod m + 1)" unfolding u by simp
  then show "1 \<le> v mod m + 1" by (simp only: word_le_nat_alt)
  have "unat (v mod m + 1) \<le> unat m" unfolding u using lt by simp
  then show "v mod m + 1 \<le> m" by (simp only: word_le_nat_alt)
qed

lemma pokemonID_151_returns: "\<exists>pid. pokemonID name 151 = Inr pid"
proof -
  have "(151::uint64) \<noteq> 0" by simp
  then show ?thesis by (simp add: pokemonID_nonzero)
qed

lemma index_never_panics: "\<exists>rw. fst (index ps w r) = Inr rw"
proof -
  obtain pid where "pokemonID (request_name r) 151 = Inr pid"
    using pokemonID_151_returns by blast
  then show ?thesis
    by (simp add: index_def Let_def split: sum.split prod.split option.split)
qed

subsection \<open>Test vectors\<close>

text \<open>
  The digest model is run on three messages of one chunk each: the empty message and
  \<open>abc\<close>, whose digests are the published SHA-1 values \<open>da39a3ee\<dots>\<close> and
  \<open>a9993e36\<dots>\<close>, and \<open>cafard\<close>, the default name of the handler. The eighty rounds
  are evaluated twenty at a time.
\<close>

lemma blockGeneric_one_chunk:
  "length p = 64 \<Longrightarrow> blockGeneric h p = blockGeneric1 h p"
  by (simp add: blockGeneric.simps [of h p] blockGeneric.simps [of _ "[]"])

lemma round_numbers: "[0..<80] = [0..<20] @ [20..<40] @ [40..<60] @ [60..<80]"
  by (simp add: upt_rec)

lemma bytes_of_empty: "bytes_of '''' = []"
  by (simp add: bytes_of_def)

lemma length_bytes_of_empty: "length (bytes_of '''') = 0"
  by (simp add: bytes_of_def)

lemma zero_bytes_empty:
  "replicate 55 (0::byte) =
     [0, 0, 0, 0, 0, 0, 0, 0, 0, 0, 0, 0, 0, 0, 0, 0, 0, 0, 0, 0,
      0, 0, 0, 0, 0, 0, 0, 0, 0, 0, 0, 0, 0, 0, 0, 0, 0, 0, 0, 0,
      0, 0, 0, 0, 0, 0, 0, 0, 0, 0, 0, 0, 0, 0, 0]"
  by (simp add: numeral_eq_Suc)

lemma sha1_padding_empty:
  "sha1_padding 0 = 0x80 # replicate 55 0 @ [0, 0, 0, 0, 0, 0, 0, 0]"
  by (simp add: sha1_padding_def BePutUint64_def)

lemma padded_empty:
  "bytes_of '''' @ sha1_padding (length (bytes_of '''')) =
     [0x80, 0, 0, 0, 0, 0, 0, 0, 0, 0, 0, 0, 0, 0, 0, 0,
      0, 0, 0, 0, 0, 0, 0, 0, 0, 0, 0, 0, 0, 0, 0, 0,
      0, 0, 0, 0, 0, 0, 0, 0, 0, 0, 0, 0, 0, 0, 0, 0,
      0, 0, 0, 0, 0, 0, 0, 0, 0, 0, 0, 0, 0, 0, 0, 0]"
  by (simp only: length_bytes_of_empty sha1_padding_empty) (simp add: bytes_of_empty zero_bytes_empty)

lemma load_words_empty:
  "load_words
     [0x80, 0, 0, 0, 0, 0, 0, 0, 0, 0, 0, 0, 0, 0, 0, 0,
      0, 0, 0, 0, 0, 0, 0, 0, 0, 0, 0, 0, 0, 0, 0, 0,
      0, 0, 0, 0, 0, 0, 0, 0, 0, 0, 0, 0, 0, 0, 0, 0,
      0, 0, 0, 0, 0, 0, 0, 0, 0, 0, 0, 0, 0, 0, 0, 0] =
     [0x80000000, 0, 0, 0, 0, 0, 0, 0,
      0, 0, 0, 0, 0, 0, 0, 0]"
  by (simp add: be_word32_def)

lemma rounds_empty_0:
  "fold sha1_round [0..<20]
     ([0x80000000, 0, 0, 0, 0, 0, 0, 0,
       0, 0, 0, 0, 0, 0, 0, 0],
      (0x67452301, 0xEFCDAB89, 0x98BADCFE, 0x10325476, 0xC3D2E1F0)) =
     ([0, 0, 0x4, 0, 0x2, 0x8, 0, 0,
       0x10, 0, 0xA, 0x20, 0x6, 0, 0x40, 0x8],
      (0xE758E8DA, 0xB3088DD, 0x8A2A5483, 0xC1AFE45C, 0xF63F5951))"
  by (simp add: upt_rec slide_def RotateLeft32_def round_f_def round_K_def)

lemma rounds_empty_20:
  "fold sha1_round [20..<40]
     ([0, 0, 0x4, 0, 0x2, 0x8, 0, 0,
       0x10, 0, 0xA, 0x20, 0x6, 0, 0x40, 0x8],
      (0xE758E8DA, 0xB3088DD, 0x8A2A5483, 0xC1AFE45C, 0xF63F5951)) =
     ([0x108, 0, 0xA0, 0x200, 0x64, 0, 0x408, 0x88,
       0x29C, 0x800, 0x80, 0x28, 0x1088, 0, 0xA40, 0x2000],
      (0x9BDBDD71, 0x62273351, 0xEC805E22, 0x413C1D9A, 0x2AEEAE62))"
  by (simp add: upt_rec slide_def RotateLeft32_def round_f_def round_K_def)

lemma rounds_empty_40:
  "fold sha1_round [40..<60]
     ([0x108, 0, 0xA0, 0x200, 0x64, 0, 0x408, 0x88,
       0x29C, 0x800, 0x80, 0x28, 0x1088, 0, 0xA40, 0x2000],
      (0x9BDBDD71, 0x62273351, 0xEC805E22, 0x413C1D9A, 0x2AEEAE62)) =
     ([0x28C8, 0x8000, 0x8A8, 0x80, 0x108E8, 0, 0xA000, 0x20080,
       0x6400, 0, 0x40800, 0x8800, 0x29C10, 0x80000, 0x8080, 0x2820],
      (0x9B9D2913, 0x982BCBCA, 0xB86BEAC8, 0xC5A3382E, 0xAF9292FA))"
  by (simp add: upt_rec slide_def RotateLeft32_def round_f_def round_K_def)

lemma rounds_empty_60:
  "fold sha1_round [60..<80]
     ([0x28C8, 0x8000, 0x8A8, 0x80, 0x108E8, 0, 0xA000, 0x20080,
       0x6400, 0, 0x40800, 0x8800, 0x29C10, 0x80000, 0x8080, 0x2820],
      (0x9B9D2913, 0x982BCBCA, 0xB86BEAC8, 0xC5A3382E, 0xAF9292FA)) =
     ([0x669F0, 0x8080, 0x408800, 0x882A0, 0x28C880, 0x800000, 0x8ACE0, 0x8000,
       0x108EAC0, 0x880, 0xA00080, 0x2008080, 0x641000, 0, 0x4080AA0, 0x882000],
      (0x72F480ED, 0x6E9D9F84, 0x999AE2F1, 0x852DC41A, 0xEC052519))"
  by (simp add: upt_rec slide_def RotateLeft32_def round_f_def round_K_def)

lemma rounds_empty:
  "fold sha1_round [0..<80]
     ([0x80000000, 0, 0, 0, 0, 0, 0, 0,
       0, 0, 0, 0, 0, 0, 0, 0],
      (0x67452301, 0xEFCDAB89, 0x98BADCFE, 0x10325476, 0xC3D2E1F0)) =
     ([0x669F0, 0x8080, 0x408800, 0x882A0, 0x28C880, 0x800000, 0x8ACE0, 0x8000,
       0x108EAC0, 0x880, 0xA00080, 0x2008080, 0x641000, 0, 0x4080AA0, 0x882000],
      (0x72F480ED, 0x6E9D9F84, 0x999AE2F1, 0x852DC41A, 0xEC052519))"
  by (simp only: round_numbers fold_append comp_apply rounds_empty_0 rounds_empty_20 rounds_empty_40 rounds_empty_60)

lemma sha1_Sum_empty:
  "sha1_Sum (bytes_of '''') =
     [0xDA, 0x39, 0xA3, 0xEE, 0x5E, 0x6B, 0x4B, 0xD, 0x32, 0x55,
      0xBF, 0xEF, 0x95, 0x60, 0x18, 0x90, 0xAF, 0xD8, 0x7, 0x9]"
proof -
  have "blockGeneric1 sha1_init
     [0x80, 0, 0, 0, 0, 0, 0, 0, 0, 0, 0, 0, 0, 0, 0, 0,
      0, 0, 0, 0, 0, 0, 0, 0, 0, 0, 0, 0, 0, 0, 0, 0,
      0, 0, 0, 0, 0, 0, 0, 0, 0, 0, 0, 0, 0, 0, 0, 0,
      0, 0, 0, 0, 0, 0, 0, 0, 0, 0, 0, 0, 0, 0, 0, 0] =
     (0xDA39A3EE, 0x5E6B4B0D, 0x3255BFEF, 0x95601890, 0xAFD80709)"
    by (simp only: sha1_init_def blockGeneric1.simps load_words_empty rounds_empty) simp
  then show ?thesis
    by (simp add: sha1_Sum_def padded_empty blockGeneric_one_chunk BePutUint32_def)
qed

lemma pokemonID_empty: "pokemonID '''' 151 = Inr 122"
  by (simp add: pokemonID_def sha1_Sum_empty)

lemma bytes_of_abc: "bytes_of ''abc'' = [0x61, 0x62, 0x63]"
  by (simp add: bytes_of_def)

lemma length_bytes_of_abc: "length (bytes_of ''abc'') = 3"
  by (simp add: bytes_of_def)

lemma zero_bytes_abc:
  "replicate 52 (0::byte) =
     [0, 0, 0, 0, 0, 0, 0, 0, 0, 0, 0, 0, 0, 0, 0, 0, 0, 0, 0, 0,
      0, 0, 0, 0, 0, 0, 0, 0, 0, 0, 0, 0, 0, 0, 0, 0, 0, 0, 0, 0,
      0, 0, 0, 0, 0, 0, 0, 0, 0, 0, 0, 0]"
  by (simp add: numeral_eq_Suc)

lemma sha1_padding_abc:
  "sha1_padding 3 = 0x80 # replicate 52 0 @ [0, 0, 0, 0, 0, 0, 0, 0x18]"
  by (simp add: sha1_padding_def BePutUint64_def)

lemma padded_abc:
  "bytes_of ''abc'' @ sha1_padding (length (bytes_of ''abc'')) =
     [0x61, 0x62, 0x63, 0x80, 0, 0, 0, 0, 0, 0, 0, 0, 0, 0, 0, 0,
      0, 0, 0, 0, 0, 0, 0, 0, 0, 0, 0, 0, 0, 0, 0, 0,
      0, 0, 0, 0, 0, 0, 0, 0, 0, 0, 0, 0, 0, 0, 0, 0,
      0, 0, 0, 0, 0, 0, 0, 0, 0, 0, 0, 0, 0, 0, 0, 0x18]"
  by (simp only: length_bytes_of_abc sha1_padding_abc) (simp add: bytes_of_abc zero_bytes_abc)

lemma load_words_abc:
  "load_words
     [0x61, 0x62, 0x63, 0x80, 0, 0, 0, 0, 0, 0, 0, 0, 0, 0, 0, 0,
      0, 0, 0, 0, 0, 0, 0, 0, 0, 0, 0, 0, 0, 0, 0, 0,
      0, 0, 0, 0, 0, 0, 0, 0, 0, 0, 0, 0, 0, 0, 0, 0,
      0, 0, 0, 0, 0, 0, 0, 0, 0, 0, 0, 0, 0, 0, 0, 0x18] =
     [0x61626380, 0, 0, 0, 0, 0, 0, 0,
      0, 0, 0, 0, 0, 0, 0, 0x18]"
  by (simp add: be_word32_def)

lemma rounds_abc_0:
  "fold sha1_round [0..<20]
     ([0x61626380, 0, 0, 0, 0, 0, 0, 0,
       0, 0, 0, 0, 0, 0, 0, 0x18],
      (0x67452301, 0xEFCDAB89, 0x98BADCFE, 0x10325476, 0xC3D2E1F0)) =
     ([0, 0x60, 0xB131C03, 0x30, 0x85898EC1, 0x16263806, 0, 0x180,
       0x2C4C700C, 0xF0, 0x93AFB507, 0x5898E048, 0x8E9A9202, 0x600, 0xB131C0F0, 0x16263BC6],
      (0xFD9E1D7D, 0xDC64901D, 0x20AA99CA, 0xD3A49608, 0xC82F758B))"
  by (simp add: upt_rec slide_def RotateLeft32_def round_f_def round_K_def)

lemma rounds_abc_20:
  "fold sha1_round [20..<40]
     ([0, 0x60, 0xB131C03, 0x30, 0x85898EC1, 0x16263806, 0, 0x180,
       0x2C4C700C, 0xF0, 0x93AFB507, 0x5898E048, 0x8E9A9202, 0x600, 0xB131C0F0, 0x16263BC6],
      (0xFD9E1D7D, 0xDC64901D, 0x20AA99CA, 0xD3A49608, 0xC82F758B)) =
     ([0xD2E138C4, 0xF00, 0x3AFB5079, 0x898E04E5, 0xE2BA3C2B, 0x60C0, 0x53A37CD, 0x74458547,
       0xDA9415ED, 0x26380A16, 0x626383A1, 0x4EBF54DE, 0x3835B44B, 0xF600, 0x1E84C7A3, 0x98E04D98],
      (0x32DE1CBA, 0x4C986405, 0xF718E5CF, 0x3D447F6, 0xF72EEC32))"
  by (simp add: upt_rec slide_def RotateLeft32_def round_f_def round_K_def)

lemma rounds_abc_40:
  "fold sha1_round [40..<60]
     ([0xD2E138C4, 0xF00, 0x3AFB5079, 0x898E04E5, 0xE2BA3C2B, 0x60C0, 0x53A37CD, 0x74458547,
       0xDA9415ED, 0x26380A16, 0x626383A1, 0x4EBF54DE, 0x3835B44B, 0xF600, 0x1E84C7A3, 0x98E04D98],
      (0x32DE1CBA, 0x4C986405, 0xF718E5CF, 0x3D447F6, 0xF72EEC32)) =
     ([0x7BA06619, 0x6380AEA2, 0xAE55269, 0x627B49A1, 0x7CD45C9D, 0xF0000, 0xFB50753A, 0xEC6765E8,
       0xBA3C2BE2, 0x60C000, 0x3A37CD05, 0x458546F4, 0xB8599DD6, 0x380A1A26, 0x1E02203, 0xE7CC3456],
      (0x3F52DE5A, 0x9D785FD, 0x3498BFD4, 0xF211824F, 0xD79915AB))"
  by (simp add: upt_rec slide_def RotateLeft32_def round_f_def round_K_def)

lemma rounds_abc_60:
  "fold sha1_round [60..<80]
     ([0x7BA06619, 0x6380AEA2, 0xAE55269, 0x627B49A1, 0x7CD45C9D, 0xF0000, 0xFB50753A, 0xEC6765E8,
       0xBA3C2BE2, 0x60C000, 0x3A37CD05, 0x458546F4, 0xB8599DD6, 0x380A1A26, 0x1E02203, 0xE7CC3456],
      (0x3F52DE5A, 0x9D785FD, 0x3498BFD4, 0xF211824F, 0xD79915AB)) =
     ([0x7E577CE2, 0x7EF2103, 0x8544E945, 0xEB39DAB8, 0xC205991A, 0x80AECB63, 0x7D84CA48, 0x7B499B62,
       0x8E8010A8, 0x4B5B8A77, 0x3216B69A, 0x507E88D, 0x705BEE96, 0x60C0FF00, 0xA28362D0, 0x1DA6B91D],
      (0x42541B35, 0x5738D5E1, 0x21834873, 0x681E6DF6, 0xD8FDF6AD))"
  by (simp add: upt_rec slide_def RotateLeft32_def round_f_def round_K_def)

lemma rounds_abc:
  "fold sha1_round [0..<80]
     ([0x61626380, 0, 0, 0, 0, 0, 0, 0,
       0, 0, 0, 0, 0, 0, 0, 0x18],
      (0x67452301, 0xEFCDAB89, 0x98BADCFE, 0x10325476, 0xC3D2E1F0)) =
     ([0x7E577CE2, 0x7EF2103, 0x8544E945, 0xEB39DAB8, 0xC205991A, 0x80AECB63, 0x7D84CA48, 0x7B499B62,
       0x8E8010A8, 0x4B5B8A77, 0x3216B69A, 0x507E88D, 0x705BEE96, 0x60C0FF00, 0xA28362D0, 0x1DA6B91D],
      (0x42541B35, 0x5738D5E1, 0x21834873, 0x681E6DF6, 0xD8FDF6AD))"
  by (simp only: round_numbers fold_append comp_apply rounds_abc_0 rounds_abc_20 rounds_abc_40 rounds_abc_60)

lemma sha1_Sum_abc:
  "sha1_Sum (bytes_of ''abc'') =
     [0xA9, 0x99, 0x3E, 0x36, 0x47, 0x6, 0x81, 0x6A, 0xBA, 0x3E,
      0x25, 0x71, 0x78, 0x50, 0xC2, 0x6C, 0x9C, 0xD0, 0xD8, 0x9D]"
proof -
  have "blockGeneric1 sha1_init
     [0x61, 0x62, 0x63, 0x80, 0, 0, 0, 0, 0, 0, 0, 0, 0, 0, 0, 0,
      0, 0, 0, 0, 0, 0, 0, 0, 0, 0, 0, 0, 0, 0, 0, 0,
      0, 0, 0, 0, 0, 0, 0, 0, 0, 0, 0, 0, 0, 0, 0, 0,
      0, 0, 0, 0, 0, 0, 0, 0, 0, 0, 0, 0, 0, 0, 0, 0x18] =
     (0xA9993E36, 0x4706816A, 0xBA3E2571, 0x7850C26C, 0x9CD0D89D)"
    by (simp only: sha1_init_def blockGeneric1.simps load_words_abc rounds_abc) simp
  then show ?thesis
    by (simp add: sha1_Sum_def padded_abc blockGeneric_one_chunk BePutUint32_def)
qed

lemma pokemonID_abc: "pokemonID ''abc'' 151 = Inr 53"
  by (simp add: pokemonID_def sha1_Sum_abc)

lemma bytes_of_cafard: "bytes_of ''cafard'' = [0x63, 0x61, 0x66, 0x61, 0x72, 0x64]"
  by (simp add: bytes_of_def)

lemma length_bytes_of_cafard: "length (bytes_of ''cafard'') = 6"
  by (simp add: bytes_of_def)

lemma zero_bytes_cafard:
  "replicate 49 (0::byte) =
     [0, 0, 0, 0, 0, 0, 0, 0, 0, 0, 0, 0, 0, 0, 0, 0, 0, 0, 0, 0,
      0, 0, 0, 0, 0, 0, 0, 0, 0, 0, 0, 0, 0, 0, 0, 0, 0, 0, 0, 0,
      0, 0, 0, 0, 0, 0, 0, 0, 0]"
  by (simp add: numeral_eq_Suc)

lemma sha1_padding_cafard:
  "sha1_padding 6 = 0x80 # replicate 49 0 @ [0, 0, 0, 0, 0, 0, 0, 0x30]"
  by (simp add: sha1_padding_def BePutUint64_def)

lemma padded_cafard:
  "bytes_of ''cafard'' @ sha1_padding (length (bytes_of ''cafard'')) =
     [0x63, 0x61, 0x66, 0x61, 0x72, 0x64, 0x80, 0, 0, 0, 0, 0, 0, 0, 0, 0,
      0, 0, 0, 0, 0, 0, 0, 0, 0, 0, 0, 0, 0, 0, 0, 0,
      0, 0, 0, 0, 0, 0, 0, 0, 0, 0, 0, 0, 0, 0, 0, 0,
      0, 0, 0, 0, 0, 0, 0, 0, 0, 0, 0, 0, 0, 0, 0, 0x30]"
  by (simp only: length_bytes_of_cafard sha1_padding_cafard) (simp add: bytes_of_cafard zero_bytes_cafard)

lemma load_words_cafard:
  "load_words
     [0x63, 0x61, 0x66, 0x61, 0x72, 0x64, 0x80, 0, 0, 0, 0, 0, 0, 0, 0, 0,
      0, 0, 0, 0, 0, 0, 0, 0, 0, 0, 0, 0, 0, 0, 0, 0,
      0, 0, 0, 0, 0, 0, 0, 0, 0, 0, 0, 0, 0, 0, 0, 0,
      0, 0, 0, 0, 0, 0, 0, 0, 0, 0, 0, 0, 0, 0, 0, 0x30] =
     [0x63616661, 0x72648000, 0, 0, 0, 0, 0, 0,
      0, 0, 0, 0, 0, 0, 0, 0x30]"
  by (simp add: be_word32_def)

lemma rounds_cafard_0:
  "fold sha1_round [0..<20]
     ([0x63616661, 0x72648000, 0, 0, 0, 0, 0, 0,
       0, 0, 0, 0, 0, 0, 0, 0x30],
      (0x67452301, 0xEFCDAB89, 0x98BADCFE, 0x10325476, 0xC3D2E1F0)) =
     ([0xC9920001, 0xC0, 0x1B0B330B, 0x93240063, 0x8D859805, 0xFF846617, 0x26480007, 0x300,
       0x6C2CCC2C, 0x4C9001EE, 0xBB93F993, 0x378398FE, 0xFAEAA92, 0x5AB60C02, 0xB0B33131, 0x45661AF],
      (0xE83E1884, 0xCC047F29, 0xFEE2A156, 0x94A1024A, 0x4DD5647B))"
  by (simp add: upt_rec slide_def RotateLeft32_def round_f_def round_K_def)

lemma rounds_cafard_20:
  "fold sha1_round [20..<40]
     ([0xC9920001, 0xC0, 0x1B0B330B, 0x93240063, 0x8D859805, 0xFF846617, 0x26480007, 0x300,
       0x6C2CCC2C, 0x4C9001EE, 0xBB93F993, 0x378398FE, 0xFAEAA92, 0x5AB60C02, 0xB0B33131, 0x45661AF],
      (0xE83E1884, 0xCC047F29, 0xFEE2A156, 0x94A1024A, 0x4DD5647B)) =
     ([0xF4DAA4D0, 0xEF481EE3, 0xB93F993B, 0x78398F23, 0xE1E19A2B, 0x3844C1A6, 0x3D25748D, 0x55387EA1,
       0xE707FDAA, 0x191A0F87, 0x296661C5, 0x8ACCE7BC, 0xC4D42B02, 0xD2C9E239, 0x234AA30A, 0xB1D8F58E],
      (0x44618C59, 0xDD61145, 0x41E4D7E3, 0xC901DC24, 0x97975797))"
  by (simp add: upt_rec slide_def RotateLeft32_def round_f_def round_K_def)

lemma rounds_cafard_40:
  "fold sha1_round [40..<60]
     ([0xF4DAA4D0, 0xEF481EE3, 0xB93F993B, 0x78398F23, 0xE1E19A2B, 0x3844C1A6, 0x3D25748D, 0x55387EA1,
       0xE707FDAA, 0x191A0F87, 0x296661C5, 0x8ACCE7BC, 0xC4D42B02, 0xD2C9E239, 0x234AA30A, 0xB1D8F58E],
      (0x44618C59, 0xDD61145, 0x41E4D7E3, 0xC901DC24, 0x97975797)) =
     ([0x84A57E7E, 0x7EE8E712, 0x194FE37F, 0xF2BFF5AC, 0x81BE7F1A, 0xA1B6E3BF, 0x3F9923B9, 0x58E9421B,
       0x851A2B93, 0x44C1A638, 0x25748D3D, 0x387EA255, 0x6BD166CB, 0x569F9F17, 0x707A24A, 0x703E30A0],
      (0xEBBA6DA9, 0x8FC71797, 0x8A6332AB, 0xF629AF5E, 0x710D25E2))"
  by (simp add: upt_rec slide_def RotateLeft32_def round_f_def round_K_def)

lemma rounds_cafard_60:
  "fold sha1_round [60..<80]
     ([0x84A57E7E, 0x7EE8E712, 0x194FE37F, 0xF2BFF5AC, 0x81BE7F1A, 0xA1B6E3BF, 0x3F9923B9, 0x58E9421B,
       0x851A2B93, 0x44C1A638, 0x25748D3D, 0x387EA255, 0x6BD166CB, 0x569F9F17, 0x707A24A, 0x703E30A0],
      (0xEBBA6DA9, 0x8FC71797, 0x8A6332AB, 0xF629AF5E, 0x710D25E2)) =
     ([0x95A82FE2, 0x696CFA84, 0xA5AEC9F2, 0xF37DF6C3, 0xABB81E40, 0x8C67C00C, 0x4D5CBD88, 0x5415DB36,
       0xEA3256DE, 0x523D176, 0xD4C5C708, 0xECA77A49, 0x5267BF9B, 0x51A7C808, 0x5E4B57A5, 0x9AA161],
      (0x2D21C23E, 0xC064CFAA, 0x4CA240FA, 0xDAA6ACE0, 0xFC2D1875))"
  by (simp add: upt_rec slide_def RotateLeft32_def round_f_def round_K_def)

lemma rounds_cafard:
  "fold sha1_round [0..<80]
     ([0x63616661, 0x72648000, 0, 0, 0, 0, 0, 0,
       0, 0, 0, 0, 0, 0, 0, 0x30],
      (0x67452301, 0xEFCDAB89, 0x98BADCFE, 0x10325476, 0xC3D2E1F0)) =
     ([0x95A82FE2, 0x696CFA84, 0xA5AEC9F2, 0xF37DF6C3, 0xABB81E40, 0x8C67C00C, 0x4D5CBD88, 0x5415DB36,
       0xEA3256DE, 0x523D176, 0xD4C5C708, 0xECA77A49, 0x5267BF9B, 0x51A7C808, 0x5E4B57A5, 0x9AA161],
      (0x2D21C23E, 0xC064CFAA, 0x4CA240FA, 0xDAA6ACE0, 0xFC2D1875))"
  by (simp only: round_numbers fold_append comp_apply rounds_cafard_0 rounds_cafard_20 rounds_cafard_40 rounds_cafard_60)

lemma sha1_Sum_cafard:
  "sha1_Sum (bytes_of ''cafard'') =
     [0x94, 0x66, 0xE5, 0x3F, 0xB0, 0x32, 0x7B, 0x33, 0xE5, 0x5D,
      0x1D, 0xF8, 0xEA, 0xD9, 0x1, 0x56, 0xBF, 0xFF, 0xFA, 0x65]"
proof -
  have "blockGeneric1 sha1_init
     [0x63, 0x61, 0x66, 0x61, 0x72, 0x64, 0x80, 0, 0, 0, 0, 0, 0, 0, 0, 0,
      0, 0, 0, 0, 0, 0, 0, 0, 0, 0, 0, 0, 0, 0, 0, 0,
      0, 0, 0, 0, 0, 0, 0, 0, 0, 0, 0, 0, 0, 0, 0, 0,
      0, 0, 0, 0, 0, 0, 0, 0, 0, 0, 0, 0, 0, 0, 0, 0x30] =
     (0x9466E53F, 0xB0327B33, 0xE55D1DF8, 0xEAD90156, 0xBFFFFA65)"
    by (simp only: sha1_init_def blockGeneric1.simps load_words_cafard rounds_cafard) simp
  then show ?thesis
    by (simp add: sha1_Sum_def padded_cafard blockGeneric_one_chunk BePutUint32_def)
qed

lemma pokemonID_cafard: "pokemonID ''cafard'' 151 = Inr 97"
  by (simp add: pokemonID_def sha1_Sum_cafard)

subsection \<open>The claims about the hasher\<close>

text \<open>
  C1. For every name, \<open>pokemonID name 151\<close> returns, without a panic, the number obtained
  by reading the first eight bytes of the SHA-1 digest of the name's bytes as a big-endian
  unsigned integer, reducing it modulo 151 and adding one.
\<close>

theorem pokemonID_151_is_spec:
  "pokemonID name 151 = Inr (of_nat (id_spec name 151)) \<and>
   unat (of_nat (id_spec name 151) :: uint64) = id_spec name 151"
proof -
  let ?d = "be_nat (take 8 (sha1_Sum (bytes_of name)))"
  let ?v = "of_nat ?d :: uint64"
  have ne: "(151::uint64) \<noteq> 0" by simp
  have u: "unat (?v mod 151 + 1) = id_spec name 151"
    using unat_mod_succ [OF ne, of ?v] by (simp add: unat_digest_word id_spec_def)
  have p: "pokemonID name 151 = Inr (?v mod 151 + 1)"
    using ne by (rule pokemonID_nonzero)
  have "of_nat (unat (?v mod 151 + 1)) = ?v mod 151 + 1"
    by simp
  then have w: "?v mod 151 + 1 = of_nat (id_spec name 151)"
    by (simp only: u)
  from p u show ?thesis
    by (simp only: w)
qed

text \<open>
  C2. For every string, \<open>pokemonID s 151\<close> returns a value and that value lies between 1
  and 151; the empty string is accepted like any other and gives 122. The result is a
  function of the two arguments only (the digest state is created afresh inside the
  call), so equal arguments give equal results.
\<close>

theorem pokemonID_151_range:
  "(\<exists>v. pokemonID s 151 = Inr v \<and> 1 \<le> v \<and> v \<le> 151) \<and> pokemonID [] 151 = Inr 122"
proof -
  have ne: "(151::uint64) \<noteq> 0" by simp
  have "\<exists>v. pokemonID s 151 = Inr v \<and> 1 \<le> v \<and> v \<le> 151"
    using pokemonID_nonzero [OF ne, of s] mod_succ_range [OF ne] by (intro exI conjI)
  then show ?thesis using pokemonID_empty by (intro conjI)
qed

text \<open>
  C10. For every name and every modulus \<open>m \<ge> 1\<close>, \<open>pokemonID\<close> returns a value between
  1 and \<open>m\<close> (the addition of one cannot wrap, since the remainder is below \<open>m\<close>); for
  \<open>m = 0\<close> the remainder operation panics with a division by zero. The handler, the
  only caller, passes 151 and so never panics.
\<close>

theorem pokemonID_total_for_positive_modulus:
  "(1 \<le> m \<longrightarrow> (\<exists>v. pokemonID name m = Inr v \<and> 1 \<le> v \<and> v \<le> m)) \<and>
   pokemonID name 0 = Inl DivideByZero \<and>
   (\<exists>rw. fst (index ps w r) = Inr rw)"
proof (intro conjI impI)
  assume "1 \<le> m"
  then have ne: "m \<noteq> 0" by auto
  show "\<exists>v. pokemonID name m = Inr v \<and> 1 \<le> v \<and> v \<le> m"
    using pokemonID_nonzero [OF ne, of name] mod_succ_range [OF ne] by (intro exI conjI)
next
  show "pokemonID name 0 = Inl DivideByZero"
    by (simp add: pokemonID_def digest_word)
next
  show "\<exists>rw. fst (index ps w r) = Inr rw"
    by (rule index_never_panics)
qed

theorem pokemonID_total_for_positive_modulus_witness:
  "(1::uint64) \<le> 151 \<and> (\<exists>v. pokemonID ''cafard'' 151 = Inr v \<and> 1 \<le> v \<and> v \<le> 151) \<and>
   pokemonID ''cafard'' 0 = Inl DivideByZero \<and>
   (\<exists>rw. fst (index process_example upstream_detail_only \<lparr>query = []\<rparr>) = Inr rw)"
proof -
  have h: "(1::uint64) \<le> 151" by simp
  note t = pokemonID_total_for_positive_modulus
    [of 151 "''cafard''" process_example upstream_detail_only "\<lparr>query = []\<rparr>"]
  from t have z: "pokemonID ''cafard'' 0 = Inl DivideByZero"
    by (rule conjunct2 [THEN conjunct1])
  from t have i: "\<exists>rw. fst (index process_example upstream_detail_only \<lparr>query = []\<rparr>) = Inr rw"
    by (rule conjunct2 [THEN conjunct2])
  from t have "1 \<le> (151::uint64) \<longrightarrow> (\<exists>v. pokemonID ''cafard'' 151 = Inr v \<and> 1 \<le> v \<and> v \<le> 151)"
    by (rule conjunct1)
  then have "\<exists>v. pokemonID ''cafard'' 151 = Inr v \<and> 1 \<le> v \<and> v \<le> 151"
    using h by (rule mp)
  with h z i show ?thesis by (intro conjI)
qed

section \<open>Properties of the flattener and the fetcher\<close>

lemma append_second_stage_eq: "append_second_stage evols fs = evols @ fs"
  by (induction fs arbitrary: evols) simp_all

lemma append_first_stage_eq:
  "append_first_stage evols es =
     evols @ concat (map (\<lambda>e. e_Species_Name e # e_EvolvesTo e) es)"
  by (induction es arbitrary: evols) (simp_all add: append_second_stage_eq)

lemma decode_chain_doc:
  "Decode dec_chain (Document chain_doc) chain_root_zero =
     (\<lparr>Chain_Species_Name = ''base'',
       Chain_EvolvesTo = [\<lparr>e_Species_Name = ''A'', e_EvolvesTo = [''A1'']\<rparr>,
                          \<lparr>e_Species_Name = ''B'', e_EvolvesTo = []\<rparr>]\<rparr>, None)"
  by (simp add: chain_doc_def dec_chain_def field1_def key_matches_def ascii_upper_def
        char_of_eq_iff chain_root_field_def chain_evolution_field_def dec_species_name_def
        chain_root_zero_def chain_evolution_zero_def first_error_def)

text \<open>
  C3. The flattener emits the base species name first and then, in input order, each
  first-stage evolution's name followed at once by the names of its second-stage
  evolutions. A chain \<open>base \<rightarrow> {A, B}\<close> with \<open>A \<rightarrow> {A1}\<close> gives \<open>[base, A, A1, B]\<close>, and a
  chain without evolutions gives \<open>[base]\<close>. Decoded from a document, a species nested
  below the second stage does not reach the result.
\<close>

theorem flatten_preorder:
  "flatten c =
     Chain_Species_Name c #
       concat (map (\<lambda>e. e_Species_Name e # e_EvolvesTo e) (Chain_EvolvesTo c)) \<and>
   flatten \<lparr>Chain_Species_Name = base,
            Chain_EvolvesTo = [\<lparr>e_Species_Name = A, e_EvolvesTo = [A1]\<rparr>,
                               \<lparr>e_Species_Name = B, e_EvolvesTo = []\<rparr>]\<rparr> = [base, A, A1, B] \<and>
   flatten \<lparr>Chain_Species_Name = base, Chain_EvolvesTo = []\<rparr> = [base] \<and>
   flatten (fst (Decode dec_chain (Document chain_doc) chain_root_zero)) =
     [''base'', ''A'', ''A1'', ''B'']"
proof -
  have d: "fst (Decode dec_chain (Document chain_doc) chain_root_zero) =
     \<lparr>Chain_Species_Name = ''base'',
      Chain_EvolvesTo = [\<lparr>e_Species_Name = ''A'', e_EvolvesTo = [''A1'']\<rparr>,
                         \<lparr>e_Species_Name = ''B'', e_EvolvesTo = []\<rparr>]\<rparr>"
    by (simp only: decode_chain_doc fst_conv)
  show ?thesis
    unfolding d by (simp add: flatten_def append_first_stage_eq)
qed

lemma types_loop_eq: "types_loop acc ts = acc @ ts"
  by (induction ts arbitrary: acc) simp_all

lemma stats_loop_append: "stats_loop m (xs @ ys) = stats_loop (stats_loop m xs) ys"
  by (induction xs arbitrary: m) simp_all

lemma stats_loop_other:
  "k \<notin> Stat_Name ` set ss \<Longrightarrow> stats_loop m ss k = m k"
  by (induction ss arbitrary: m) simp_all

lemma dom_stats_loop: "dom (stats_loop m ss) = dom m \<union> Stat_Name ` set ss"
  by (induction ss arbitrary: m) auto

lemma stats_loop_last:
  assumes "ss = pre @ s # post" and "Stat_Name s \<notin> Stat_Name ` set post"
  shows "stats_loop m ss (Stat_Name s) = Some (BaseStat s)"
proof -
  have "stats_loop m ss = stats_loop ((stats_loop m pre)(Stat_Name s \<mapsto> BaseStat s)) post"
    by (simp add: assms(1) stats_loop_append)
  then show ?thesis
    using assms(2) by (simp add: stats_loop_other)
qed

lemma pokemon_url_nonempty: "pokemon_url pid \<noteq> []"
  by (simp add: pokemon_url_def)

lemma http_Get_nonempty:
  "url \<noteq> [] \<Longrightarrow> http_Get w url = (respond w (clock w) url, w\<lparr>clock := Suc (clock w)\<rparr>)"
  by (simp add: http_Get_def)

lemma http_Get_empty: "http_Get w [] = (Inl (NetError ''unsupported protocol scheme''), w)"
  by (simp add: http_Get_def)

lemma fetchEvolutions_first_fails:
  "http_Get w url = (Inl e, w1) \<Longrightarrow> fetchEvolutions w url = ([], w1)"
  by (simp add: fetchEvolutions_def)

lemma fetchEvolutions_second_fails:
  "http_Get w url = (Inr resp, w1) \<Longrightarrow>
   http_Get w1 (fst (Decode dec_species resp [])) = (Inl e, w2) \<Longrightarrow>
   fetchEvolutions w url = ([], w2)"
  by (simp add: fetchEvolutions_def)

lemma fetchEvolutions_both_arrive:
  "http_Get w url = (Inr resp, w1) \<Longrightarrow>
   http_Get w1 (fst (Decode dec_species resp [])) = (Inr resp2, w2) \<Longrightarrow>
   fetchEvolutions w url = (flatten (fst (Decode dec_chain resp2 chain_root_zero)), w2)"
  by (simp add: fetchEvolutions_def)

lemma flatten_nonempty: "flatten c \<noteq> []"
  by (simp add: flatten_def append_first_stage_eq)

lemma fetchPokemon_get_fails:
  "http_Get w (pokemon_url pid) = (Inl e, w1) \<Longrightarrow>
   fetchPokemon w pid = ((pokemonData_zero, Some e), w1)"
  by (simp add: fetchPokemon_def)

lemma fetchPokemon_decode_fails:
  "http_Get w (pokemon_url pid) = (Inr resp, w1) \<Longrightarrow>
   Decode (dec_struct pokeAPIResponse_field) resp pokeAPIResponse_zero = (poke, Some e) \<Longrightarrow>
   fetchPokemon w pid = ((pokemonData_zero, Some e), w1)"
  by (simp add: fetchPokemon_def)

lemma fetchPokemon_decoded:
  "http_Get w (pokemon_url pid) = (Inr resp, w1) \<Longrightarrow>
   Decode (dec_struct pokeAPIResponse_field) resp pokeAPIResponse_zero = (poke, None) \<Longrightarrow>
   fetchPokemon w pid =
     ((\<lparr>data_Name = Name poke,
        data_Types = Types poke,
        data_Stats = stats_loop Map.empty (Stats poke),
        data_Sprite = Sprites_Other_Official_Front poke,
        data_Evolutions = fst (fetchEvolutions w1 (Species_URL poke))\<rparr>, None),
      snd (fetchEvolutions w1 (Species_URL poke)))"
  by (simp add: fetchPokemon_def types_loop_eq split: prod.split)


lemma decode_detail_doc:
  "Decode (dec_struct pokeAPIResponse_field) (Document detail_doc) pokeAPIResponse_zero =
     (\<lparr>Name = ''bulbasaur'', Types = [''grass'', ''poison''],
       Stats = [\<lparr>BaseStat = 45, Stat_Name = ''hp''\<rparr>, \<lparr>BaseStat = 49, Stat_Name = ''attack''\<rparr>,
                \<lparr>BaseStat = 50, Stat_Name = ''hp''\<rparr>],
       Sprites_Other_Official_Front = ''https://img.example/1.png'',
       Species_URL = ''https://pokeapi.co/api/v2/pokemon-species/1/''\<rparr>, None)"
  by (simp add: detail_doc_def pokeAPIResponse_field_def stat_entry_field_def field1_def
        key_matches_def ascii_upper_def char_of_eq_iff pokeAPIResponse_zero_def
        stat_entry_zero_def first_error_def)

lemma decode_species_doc:
  "Decode dec_species (Document species_doc) [] =
     (''https://pokeapi.co/api/v2/evolution-chain/1/'', None)"
  by (simp add: species_doc_def dec_species_def field1_def key_matches_def ascii_upper_def
        char_of_eq_iff first_error_def)

text \<open>
  C9. The stats of an assembled record are a map, one value per key: its keys are exactly
  the stat names of the decoded response, and a name that occurs more than once keeps the
  \<open>base_stat\<close> of its last occurrence.
\<close>

theorem stats_last_occurrence_wins:
  assumes "http_Get w (pokemon_url pid) = (Inr resp, w1)"
    and "Decode (dec_struct pokeAPIResponse_field) resp pokeAPIResponse_zero = (poke, None)"
  shows "\<exists>r w2. fetchPokemon w pid = ((r, None), w2) \<and>
           dom (data_Stats r) = Stat_Name ` set (Stats poke) \<and>
           (\<forall>pre s post. Stats poke = pre @ s # post \<and> Stat_Name s \<notin> Stat_Name ` set post \<longrightarrow>
              data_Stats r (Stat_Name s) = Some (BaseStat s))"
proof -
  let ?r = "\<lparr>data_Name = Name poke, data_Types = Types poke,
             data_Stats = stats_loop Map.empty (Stats poke),
             data_Sprite = Sprites_Other_Official_Front poke,
             data_Evolutions = fst (fetchEvolutions w1 (Species_URL poke))\<rparr>"
  have "fetchPokemon w pid = ((?r, None), snd (fetchEvolutions w1 (Species_URL poke)))"
    using assms by (rule fetchPokemon_decoded)
  moreover have "dom (data_Stats ?r) = Stat_Name ` set (Stats poke)"
    by (simp add: dom_stats_loop)
  moreover have "\<forall>pre s post. Stats poke = pre @ s # post \<and> Stat_Name s \<notin> Stat_Name ` set post \<longrightarrow>
              data_Stats ?r (Stat_Name s) = Some (BaseStat s)"
    by (auto intro: stats_loop_last)
  ultimately show ?thesis by blast
qed

theorem stats_last_occurrence_wins_witness:
  "\<exists>r w2. fetchPokemon upstream_detail_only 1 = ((r, None), w2) \<and>
          dom (data_Stats r) = {''hp'', ''attack''} \<and> data_Stats r ''hp'' = Some 50"
proof -
  let ?w1 = "upstream_detail_only\<lparr>clock := Suc 0\<rparr>"
  let ?poke = "\<lparr>Name = ''bulbasaur'', Types = [''grass'', ''poison''],
       Stats = [\<lparr>BaseStat = 45, Stat_Name = ''hp''\<rparr>, \<lparr>BaseStat = 49, Stat_Name = ''attack''\<rparr>,
                \<lparr>BaseStat = 50, Stat_Name = ''hp''\<rparr>],
       Sprites_Other_Official_Front = ''https://img.example/1.png'',
       Species_URL = ''https://pokeapi.co/api/v2/pokemon-species/1/''\<rparr>"
  have g: "http_Get upstream_detail_only (pokemon_url 1) = (Inr (Document detail_doc), ?w1)"
    by (simp add: http_Get_nonempty pokemon_url_nonempty) (simp add: upstream_detail_only_def)
  from stats_last_occurrence_wins [OF g decode_detail_doc]
  obtain r w2 where r: "fetchPokemon upstream_detail_only 1 = ((r, None), w2)"
    and d: "dom (data_Stats r) = Stat_Name ` set (Stats ?poke)"
    and l: "\<forall>pre s post. Stats ?poke = pre @ s # post \<and> Stat_Name s \<notin> Stat_Name ` set post \<longrightarrow>
              data_Stats r (Stat_Name s) = Some (BaseStat s)"
    by blast
  have "data_Stats r ''hp'' = Some 50"
    using l [rule_format, of "[\<lparr>BaseStat = 45, Stat_Name = ''hp''\<rparr>, \<lparr>BaseStat = 49, Stat_Name = ''attack''\<rparr>]"
        "\<lparr>BaseStat = 50, Stat_Name = ''hp''\<rparr>" "[]"]
    by simp
  moreover from d have "dom (data_Stats r) = {''hp'', ''attack''}" by auto
  ultimately show ?thesis using r by blast
qed

text \<open>
  C4. The claim is that \<open>fetchEvolutions\<close> returns an empty sequence whenever the chain
  data could not be obtained or parsed. When the species request succeeds and the chain
  request returns a body that is not JSON, the error of \<open>Decode\<close> is dropped and the result
  is the one-element list holding the empty name.
\<close>

theorem fetchEvolutions_unparseable_chain:
  "fst (fetchEvolutions upstream_garbage_chain ''https://pokeapi.co/api/v2/pokemon-species/1/'')
     = [[]]"
proof -
  let ?w1 = "upstream_garbage_chain\<lparr>clock := Suc 0\<rparr>"
  let ?w2 = "upstream_garbage_chain\<lparr>clock := Suc (Suc 0)\<rparr>"
  have g1: "http_Get upstream_garbage_chain ''https://pokeapi.co/api/v2/pokemon-species/1/''
        = (Inr (Document species_doc), ?w1)"
    by (simp add: http_Get_def upstream_garbage_chain_def)
  have g2: "http_Get ?w1 (fst (Decode dec_species (Document species_doc) [])) = (Inr Garbage, ?w2)"
    by (simp only: decode_species_doc fst_conv) (simp add: http_Get_def upstream_garbage_chain_def)
  show ?thesis
    by (simp only: fetchEvolutions_both_arrive [OF g1 g2])
       (simp add: flatten_def chain_root_zero_def)
qed

text \<open>
  C7. The claim is that \<open>title\<close> upper-cases the first character of every string. The
  helper slices the first byte: on the UTF-8 string for "e-acute c o l e" (bytes C3 A9 63 6F
  6C 65) the first byte alone is not valid UTF-8, so it is replaced by U+FFFD and the second
  byte of the letter is left behind.
\<close>

theorem title_non_ascii_first_letter:
  "title [CHR 0xC3, CHR 0xA9, CHR ''c'', CHR ''o'', CHR ''l'', CHR ''e''] =
     [CHR 0xEF, CHR 0xBF, CHR 0xBD, CHR 0xA9, CHR ''c'', CHR ''o'', CHR ''l'', CHR ''e'']"
  by (simp add: title_def ToUpper_byte_def)

lemma title_empty: "title [] = []"
  by (simp add: title_def)

lemma title_ascii:
  "(of_char c :: nat) < 128 \<Longrightarrow> title (c # cs) = ascii_upper c # cs"
  by (simp add: title_def ToUpper_byte_def)

text \<open>
  C6. A request whose \<open>name\<close> parameter is absent or empty is handled exactly as the
  request with \<open>name=cafard\<close>: same response and same upstream requests.
\<close>

theorem index_default_name:
  assumes "Query_Get (query r) ''name'' = []"
  shows "index ps w r = index ps w (r\<lparr>query := [(''name'', ''cafard'')]\<rparr>)"
  using assms by (simp add: index_def request_name_def)

section \<open>Properties of the error policy and the handler\<close>

lemma final_status_Execute:
  "snd (tmpl title params) = None \<Longrightarrow>
   final_status (fst (Execute tmpl \<lparr>status = None, written = []\<rparr> params)) = 200"
  by (auto simp: Execute_def final_status_def Write_def WriteHeader_def split: prod.split)

lemma index_renders:
  assumes "ParseFS ps = Inr tmpl"
    and "pokemonID (request_name r) 151 = Inr pid"
    and "fetchPokemon w pid = ((poke, None), w')"
    and "snd (tmpl title (page_params ps (request_name r) pid poke)) = None"
  shows "index ps w r =
     (Inr (fst (Execute tmpl \<lparr>status = None, written = []\<rparr>
                 (page_params ps (request_name r) pid poke))), w')"
proof -
  let ?e = "Execute tmpl \<lparr>status = None, written = []\<rparr>
                 (page_params ps (request_name r) pid poke)"
  have "snd ?e = None"
    using assms(4) by (auto simp: Execute_def split: prod.split)
  then obtain rw where e: "?e = (rw, None)"
    by (cases ?e) auto
  have "index ps w r = (Inr rw, w')"
    by (simp add: index_def assms(1,2,3) e)
  also have "rw = fst ?e" by (simp add: e)
  finally show ?thesis .
qed

lemma fetchPokemon_error_iff:
  "(snd (fst (fetchPokemon w pid)) \<noteq> None) = detail_fetch_fails w pid"
proof (cases "http_Get w (pokemon_url pid)")
  case (Pair res w1)
  show ?thesis
  proof (cases res)
    case (Inl e)
    with Pair show ?thesis
      by (simp add: fetchPokemon_def detail_fetch_fails_def)
  next
    case (Inr resp)
    obtain poke err where
      d: "Decode (dec_struct pokeAPIResponse_field) resp pokeAPIResponse_zero = (poke, err)"
      by (cases "Decode (dec_struct pokeAPIResponse_field) resp pokeAPIResponse_zero")
    show ?thesis
    proof (cases err)
      case None
      with Pair Inr d show ?thesis
        by (simp add: fetchPokemon_def detail_fetch_fails_def split: prod.split)
    next
      case (Some e)
      with Pair Inr d show ?thesis
        by (simp add: fetchPokemon_def detail_fetch_fails_def)
    qed
  qed
qed

lemma evolution_request_fails_empty:
  "evolution_request_fails w1 url \<Longrightarrow> fst (fetchEvolutions w1 url) = []"
  by (auto simp: evolution_request_fails_def fetchEvolutions_def split: prod.splits sum.splits)

text \<open>
  What holds of the error policy. \<open>fetchPokemon\<close> returns an error exactly when step (1)
  fails. When step (1) succeeds and the species request or the chain request returns an
  error, it returns the record assembled from step (1) with no evolutions and no error;
  the handler then responds with status 200 and the page rendered from that record,
  provided the template parses and renders.
\<close>

lemma fetchPokemon_request_failure_policy:
  "((snd (fst (fetchPokemon w pid)) \<noteq> None) = detail_fetch_fails w pid) \<and>
   (http_Get w (pokemon_url pid) = (Inr resp, w1) \<and>
    Decode (dec_struct pokeAPIResponse_field) resp pokeAPIResponse_zero = (poke, None) \<and>
    evolution_request_fails w1 (Species_URL poke) \<longrightarrow>
      fst (fetchPokemon w pid) =
        (\<lparr>data_Name = Name poke, data_Types = Types poke,
          data_Stats = stats_loop Map.empty (Stats poke),
          data_Sprite = Sprites_Other_Official_Front poke,
          data_Evolutions = []\<rparr>, None) \<and>
      (ParseFS ps = Inr tmpl \<and> pokemonID (request_name r) 151 = Inr pid \<and>
       (\<forall>params. snd (tmpl title params) = None) \<longrightarrow>
         (\<exists>rw w'. index ps w r = (Inr rw, w') \<and> final_status rw = 200 \<and>
            rw = fst (Execute tmpl \<lparr>status = None, written = []\<rparr>
                    (page_params ps (request_name r) pid
                       \<lparr>data_Name = Name poke, data_Types = Types poke,
                        data_Stats = stats_loop Map.empty (Stats poke),
                        data_Sprite = Sprites_Other_Official_Front poke,
                        data_Evolutions = []\<rparr>)))))"
proof (intro conjI impI)
  show "(snd (fst (fetchPokemon w pid)) \<noteq> None) = detail_fetch_fails w pid"
    by (rule fetchPokemon_error_iff)
next
  assume a: "http_Get w (pokemon_url pid) = (Inr resp, w1) \<and>
    Decode (dec_struct pokeAPIResponse_field) resp pokeAPIResponse_zero = (poke, None) \<and>
    evolution_request_fails w1 (Species_URL poke)"
  let ?d = "\<lparr>data_Name = Name poke, data_Types = Types poke,
          data_Stats = stats_loop Map.empty (Stats poke),
          data_Sprite = Sprites_Other_Official_Front poke,
          data_Evolutions = []\<rparr>"
  from a have f: "fetchPokemon w pid = ((?d, None), snd (fetchEvolutions w1 (Species_URL poke)))"
    by (simp add: fetchPokemon_decoded evolution_request_fails_empty)
  then show "fst (fetchPokemon w pid) = (?d, None)" by simp
  assume b: "ParseFS ps = Inr tmpl \<and> pokemonID (request_name r) 151 = Inr pid \<and>
       (\<forall>params. snd (tmpl title params) = None)"
  let ?rw = "fst (Execute tmpl \<lparr>status = None, written = []\<rparr>
                    (page_params ps (request_name r) pid ?d))"
  from b have "index ps w r = (Inr ?rw, snd (fetchEvolutions w1 (Species_URL poke)))"
    by (intro index_renders [OF _ _ f]) simp_all
  moreover from b have "final_status ?rw = 200"
    by (intro final_status_Execute) simp
  ultimately show "\<exists>rw w'. index ps w r = (Inr rw, w') \<and> final_status rw = 200 \<and> rw = ?rw"
    by blast
qed

lemma fetchPokemon_request_failure_example:
  "\<exists>rw w'. index process_example upstream_detail_only \<lparr>query = []\<rparr> = (Inr rw, w') \<and>
      final_status rw = 200 \<and> written rw = [Html ''Bulbasaur'']"
proof -
  let ?r = "\<lparr>query = []\<rparr>"
  let ?w1 = "upstream_detail_only\<lparr>clock := Suc 0\<rparr>"
  let ?tmpl = "\<lambda>helper params. (helper (p_PokemonName params), None :: error option)"
  let ?poke = "\<lparr>Name = ''bulbasaur'', Types = [''grass'', ''poison''],
       Stats = [\<lparr>BaseStat = 45, Stat_Name = ''hp''\<rparr>, \<lparr>BaseStat = 49, Stat_Name = ''attack''\<rparr>,
                \<lparr>BaseStat = 50, Stat_Name = ''hp''\<rparr>],
       Sprites_Other_Official_Front = ''https://img.example/1.png'',
       Species_URL = ''https://pokeapi.co/api/v2/pokemon-species/1/''\<rparr>"
  obtain pid where pid: "pokemonID (request_name ?r) 151 = Inr pid"
    using pokemonID_151_returns by blast
  have g: "http_Get upstream_detail_only (pokemon_url pid) = (Inr (Document detail_doc), ?w1)"
    by (simp add: http_Get_nonempty pokemon_url_nonempty) (simp add: upstream_detail_only_def)
  have e: "evolution_request_fails ?w1 (Species_URL ?poke)"
    by (simp add: evolution_request_fails_def http_Get_def upstream_detail_only_def)
  have p: "ParseFS process_example = Inr ?tmpl"
    by (simp add: process_example_def)
  have t: "\<forall>params. snd (?tmpl title params) = None" by simp
  from fetchPokemon_request_failure_policy [of upstream_detail_only pid "Document detail_doc" ?w1 ?poke
        process_example ?tmpl ?r]
    g decode_detail_doc e p pid t
  obtain rw w' where i: "index process_example upstream_detail_only ?r = (Inr rw, w')"
    and s: "final_status rw = 200"
    and rw: "rw = fst (Execute ?tmpl \<lparr>status = None, written = []\<rparr>
                    (page_params process_example (request_name ?r) pid
                       \<lparr>data_Name = Name ?poke, data_Types = Types ?poke,
                        data_Stats = stats_loop Map.empty (Stats ?poke),
                        data_Sprite = Sprites_Other_Official_Front ?poke,
                        data_Evolutions = []\<rparr>))"
    by blast
  from rw have "written rw = [Html ''Bulbasaur'']"
    by (simp add: Execute_def page_params_def title_def ToUpper_byte_def ascii_upper_def
          char_of_eq_iff Write_def WriteHeader_def)
  with i s show ?thesis by blast
qed

text \<open>
  C5. The claim is that \<open>fetchPokemon\<close> returns an error exactly when step (1) fails and
  that any failure of step (2) or (3) is swallowed with the evolutions left empty. The
  first half and the status 200 hold. When the chain response arrives and is not JSON,
  step (3) has failed, no error is returned and the handler responds 200, but the
  evolutions are not empty: the record holds one evolution with the empty name, and the
  page lists it. On the world below the default request hashes to 97.
\<close>

theorem fetchPokemon_unparseable_chain:
  "\<not> detail_fetch_fails upstream_unparseable_chain 97 \<and>
   snd (fst (fetchPokemon upstream_unparseable_chain 97)) = None \<and>
   data_Name (fst (fst (fetchPokemon upstream_unparseable_chain 97))) = ''bulbasaur'' \<and>
   data_Evolutions (fst (fst (fetchPokemon upstream_unparseable_chain 97))) = [[]] \<and>
   index process_listing upstream_unparseable_chain \<lparr>query = []\<rparr> =
     (Inr \<lparr>status = Some 200, written = [Html ''Bulbasaur []'']\<rparr>,
      upstream_unparseable_chain\<lparr>clock := Suc (Suc (Suc 0))\<rparr>)"
proof -
  let ?w = upstream_unparseable_chain
  let ?w1 = "?w\<lparr>clock := Suc 0\<rparr>"
  let ?w2 = "?w\<lparr>clock := Suc (Suc 0)\<rparr>"
  let ?w3 = "?w\<lparr>clock := Suc (Suc (Suc 0))\<rparr>"
  let ?url = "''https://pokeapi.co/api/v2/pokemon-species/1/''"
  let ?poke = "\<lparr>Name = ''bulbasaur'', Types = [''grass'', ''poison''],
       Stats = [\<lparr>BaseStat = 45, Stat_Name = ''hp''\<rparr>, \<lparr>BaseStat = 49, Stat_Name = ''attack''\<rparr>,
                \<lparr>BaseStat = 50, Stat_Name = ''hp''\<rparr>],
       Sprites_Other_Official_Front = ''https://img.example/1.png'',
       Species_URL = ?url\<rparr>"
  let ?d = "\<lparr>data_Name = ''bulbasaur'', data_Types = [''grass'', ''poison''],
       data_Stats = stats_loop Map.empty (Stats ?poke),
       data_Sprite = ''https://img.example/1.png'', data_Evolutions = [[]]\<rparr>"
  let ?tmpl = "\<lambda>helper params. (helper (p_PokemonName params) @
           concat (map (\<lambda>e. '' ['' @ e @ '']'') (p_Evolutions params)), None :: error option)"
  have g0: "http_Get ?w (pokemon_url 97) = (Inr (Document detail_doc), ?w1)"
    by (simp add: http_Get_nonempty pokemon_url_nonempty)
       (simp add: upstream_unparseable_chain_def)
  have g1: "http_Get ?w1 ?url = (Inr (Document species_doc), ?w2)"
    by (simp add: http_Get_def upstream_unparseable_chain_def)
  have g2: "http_Get ?w2 (fst (Decode dec_species (Document species_doc) [])) =
      (Inr Garbage, ?w3)"
    by (simp only: decode_species_doc fst_conv)
       (simp add: http_Get_def upstream_unparseable_chain_def)
  have e: "fetchEvolutions ?w1 ?url = ([[]], ?w3)"
    by (simp only: fetchEvolutions_both_arrive [OF g1 g2])
       (simp add: flatten_def chain_root_zero_def)
  have "fetchPokemon ?w 97 =
      ((\<lparr>data_Name = Name ?poke, data_Types = Types ?poke,
         data_Stats = stats_loop Map.empty (Stats ?poke),
         data_Sprite = Sprites_Other_Official_Front ?poke,
         data_Evolutions = fst (fetchEvolutions ?w1 (Species_URL ?poke))\<rparr>, None),
       snd (fetchEvolutions ?w1 (Species_URL ?poke)))"
    using g0 decode_detail_doc by (rule fetchPokemon_decoded)
  then have f: "fetchPokemon ?w 97 = ((?d, None), ?w3)"
    by (simp add: e)
  have nf: "\<not> detail_fetch_fails ?w 97"
    using fetchPokemon_error_iff [of ?w 97] by (simp add: f)
  have n: "request_name \<lparr>query = []\<rparr> = ''cafard''"
    by (simp add: request_name_def)
  have p: "ParseFS process_listing = Inr ?tmpl"
    by (simp add: process_listing_def)
  have "index process_listing ?w \<lparr>query = []\<rparr> =
      (Inr (fst (Execute ?tmpl \<lparr>status = None, written = []\<rparr>
                  (page_params process_listing (request_name \<lparr>query = []\<rparr>) 97 ?d))), ?w3)"
    by (rule index_renders [OF p _ f]) (simp_all add: n pokemonID_cafard)
  also have "fst (Execute ?tmpl \<lparr>status = None, written = []\<rparr>
                  (page_params process_listing (request_name \<lparr>query = []\<rparr>) 97 ?d)) =
      \<lparr>status = Some 200, written = [Html ''Bulbasaur []'']\<rparr>"
    by (simp add: Execute_def page_params_def title_def ToUpper_byte_def ascii_upper_def
          char_of_eq_iff Write_def WriteHeader_def)
  finally have i: "index process_listing ?w \<lparr>query = []\<rparr> =
      (Inr \<lparr>status = Some 200, written = [Html ''Bulbasaur []'']\<rparr>, ?w3)" .
  from nf f i show ?thesis by simp
qed

theorem index_default_name_witness:
  "Query_Get [] ''name'' = [] \<and> Query_Get [(''name'', [])] ''name'' = [] \<and>
   index process_example upstream_detail_only \<lparr>query = []\<rparr> =
     index process_example upstream_detail_only \<lparr>query = [(''name'', ''cafard'')]\<rparr> \<and>
   index process_example upstream_detail_only \<lparr>query = [(''name'', [])]\<rparr> =
     index process_example upstream_detail_only \<lparr>query = [(''name'', ''cafard'')]\<rparr>"
  using index_default_name [of "\<lparr>query = []\<rparr>" process_example upstream_detail_only]
        index_default_name [of "\<lparr>query = [(''name'', [])]\<rparr>" process_example upstream_detail_only]
  by simp

section \<open>Absent fields\<close>

lemma fst_dec_members_Cons:
  "fst (dec_members field ((k, v) # kvs) s) = fst (dec_members field kvs (fst (field k v s)))"
  by (auto split: prod.split)

lemma dec_members_frame:
  assumes "\<And>k v s. \<not> key_matches tag k \<Longrightarrow> g (fst (field k v s)) = g s"
    and "\<not> has_member tag kvs"
  shows "g (fst (dec_members field kvs s)) = g s"
  using assms(2)
proof (induction kvs arbitrary: s)
  case Nil
  show ?case by simp
next
  case (Cons kv kvs)
  obtain k v where kv: "kv = (k, v)" by (cases kv)
  from Cons.prems kv have nk: "\<not> key_matches tag k" and nr: "\<not> has_member tag kvs"
    by simp_all
  have "g (fst (dec_members field kvs (fst (field k v s)))) = g (fst (field k v s))"
    using nr by (rule Cons.IH)
  also have "\<dots> = g s" using nk by (rule assms(1))
  finally show ?case
    by (simp only: kv fst_dec_members_Cons)
qed

lemma dec_members_field1_absent:
  "\<not> has_member tag kvs \<Longrightarrow> dec_members (field1 tag d) kvs s = (s, None)"
  by (induction kvs arbitrary: s) (auto simp: field1_def first_error_def)

lemma dec_struct_field1_absent:
  "\<not> has_member tag kvs \<Longrightarrow> dec_struct (field1 tag d) (JObj kvs) s = (s, None)"
  by (simp add: dec_members_field1_absent)

lemma pokeAPIResponse_field_frame:
  "\<not> key_matches ''name'' k \<Longrightarrow> Name (fst (pokeAPIResponse_field k v p)) = Name p"
  "\<not> key_matches ''types'' k \<Longrightarrow> Types (fst (pokeAPIResponse_field k v p)) = Types p"
  "\<not> key_matches ''stats'' k \<Longrightarrow> Stats (fst (pokeAPIResponse_field k v p)) = Stats p"
  "\<not> key_matches ''sprites'' k \<Longrightarrow>
     Sprites_Other_Official_Front (fst (pokeAPIResponse_field k v p)) =
     Sprites_Other_Official_Front p"
  "\<not> key_matches ''species'' k \<Longrightarrow>
     Species_URL (fst (pokeAPIResponse_field k v p)) = Species_URL p"
  by (simp_all add: pokeAPIResponse_field_def split: prod.split)

lemma pokeAPIResponse_field_unknown:
  "\<not> key_matches ''name'' k \<Longrightarrow> \<not> key_matches ''types'' k \<Longrightarrow> \<not> key_matches ''stats'' k \<Longrightarrow>
   \<not> key_matches ''sprites'' k \<Longrightarrow> \<not> key_matches ''species'' k \<Longrightarrow>
   pokeAPIResponse_field k v p = (p, None)"
  by (simp add: pokeAPIResponse_field_def)

lemma pokeAPIResponse_all_absent:
  "\<not> has_member ''name'' kvs \<Longrightarrow> \<not> has_member ''types'' kvs \<Longrightarrow> \<not> has_member ''stats'' kvs \<Longrightarrow>
   \<not> has_member ''sprites'' kvs \<Longrightarrow> \<not> has_member ''species'' kvs \<Longrightarrow>
   dec_members pokeAPIResponse_field kvs p = (p, None)"
  by (induction kvs arbitrary: p)
     (auto simp: pokeAPIResponse_field_unknown first_error_def)

lemma stat_entry_field_frame:
  "\<not> key_matches ''base_stat'' k \<Longrightarrow> BaseStat (fst (stat_entry_field k v s)) = BaseStat s"
  "\<not> key_matches ''stat'' k \<Longrightarrow> Stat_Name (fst (stat_entry_field k v s)) = Stat_Name s"
  by (simp_all add: stat_entry_field_def split: prod.split)

lemma chain_root_field_frame:
  "\<not> key_matches ''species'' k \<Longrightarrow>
     Chain_Species_Name (fst (chain_root_field k v c)) = Chain_Species_Name c"
  "\<not> key_matches ''evolves_to'' k \<Longrightarrow>
     Chain_EvolvesTo (fst (chain_root_field k v c)) = Chain_EvolvesTo c"
  by (simp_all add: chain_root_field_def split: prod.split)

lemma chain_evolution_field_frame:
  "\<not> key_matches ''species'' k \<Longrightarrow>
     e_Species_Name (fst (chain_evolution_field k v e)) = e_Species_Name e"
  "\<not> key_matches ''evolves_to'' k \<Longrightarrow>
     e_EvolvesTo (fst (chain_evolution_field k v e)) = e_EvolvesTo e"
  by (simp_all add: chain_evolution_field_def split: prod.split)

lemma fetchEvolutions_empty_url: "fetchEvolutions w [] = ([], w)"
  by (simp add: fetchEvolutions_first_fails [OF http_Get_empty])

lemma fetchPokemon_all_absent:
  assumes "http_Get w (pokemon_url pid) = (Inr (Document (JObj kvs)), w1)"
    and "\<not> has_member ''name'' kvs" "\<not> has_member ''types'' kvs" "\<not> has_member ''stats'' kvs"
        "\<not> has_member ''sprites'' kvs" "\<not> has_member ''species'' kvs"
  shows "fetchPokemon w pid = ((pokemonData_zero, None), w1)"
proof -
  have "Decode (dec_struct pokeAPIResponse_field) (Document (JObj kvs)) pokeAPIResponse_zero
          = (pokeAPIResponse_zero, None)"
    using assms(2-6) by (simp add: pokeAPIResponse_all_absent)
  from fetchPokemon_decoded [OF assms(1) this] show ?thesis
    by (simp add: pokeAPIResponse_zero_def pokemonData_zero_def fetchEvolutions_empty_url)
qed

lemma fetchEvolutions_species_absent:
  assumes "http_Get w url = (Inr (Document (JObj kvs)), w1)"
    and "\<not> has_member ''evolution_chain'' kvs"
  shows "fetchEvolutions w url = ([], w1)"
proof -
  have "fst (Decode dec_species (Document (JObj kvs)) []) = []"
    using assms(2) by (simp add: dec_species_def dec_members_field1_absent)
  then have "http_Get w1 (fst (Decode dec_species (Document (JObj kvs)) [])) =
      (Inl (NetError ''unsupported protocol scheme''), w1)"
    by (simp add: http_Get_empty)
  with assms(1) show ?thesis by (rule fetchEvolutions_second_fails)
qed

lemma fetchEvolutions_chain_absent:
  assumes "http_Get w url = (Inr resp, w1)"
    and "http_Get w1 (fst (Decode dec_species resp [])) = (Inr (Document (JObj kvs)), w2)"
    and "\<not> has_member ''chain'' kvs"
  shows "fetchEvolutions w url = ([[]], w2)"
proof -
  have "Decode dec_chain (Document (JObj kvs)) chain_root_zero = (chain_root_zero, None)"
    using assms(3) by (simp add: dec_chain_def dec_members_field1_absent)
  then show ?thesis
    by (simp add: fetchEvolutions_both_arrive [OF assms(1,2)] flatten_def chain_root_zero_def)
qed

text \<open>
  C8. In a response object, a member that is absent leaves its field at the zero value,
  at the top level and in the nested structs; an object with none of the expected
  members decodes without error and \<open>fetchPokemon\<close> returns the zero record; whenever
  decoding reports no error \<open>fetchPokemon\<close> returns a record built from the decoded
  fields; \<open>fetchEvolutions\<close> returns the empty list for a species object without
  \<open>evolution_chain\<close> and the single empty name for a chain object without \<open>chain\<close>.
\<close>

theorem absent_fields_take_zero_values:
  assumes "http_Get w (pokemon_url pid) = (Inr (Document (JObj kvs)), w1)"
    and "Decode (dec_struct pokeAPIResponse_field) (Document (JObj kvs)) pokeAPIResponse_zero
           = (poke, err)"
  shows "(\<not> has_member ''name'' kvs \<longrightarrow> Name poke = []) \<and>
         (\<not> has_member ''types'' kvs \<longrightarrow> Types poke = []) \<and>
         (\<not> has_member ''stats'' kvs \<longrightarrow> Stats poke = []) \<and>
         (\<not> has_member ''sprites'' kvs \<longrightarrow> Sprites_Other_Official_Front poke = []) \<and>
         (\<not> has_member ''species'' kvs \<longrightarrow> Species_URL poke = []) \<and>
         (\<not> has_member ''name'' kvs \<and> \<not> has_member ''types'' kvs \<and> \<not> has_member ''stats'' kvs \<and>
          \<not> has_member ''sprites'' kvs \<and> \<not> has_member ''species'' kvs \<longrightarrow>
            fetchPokemon w pid = ((pokemonData_zero, None), w1)) \<and>
         (err = None \<longrightarrow>
            (\<exists>r w2. fetchPokemon w pid = ((r, None), w2) \<and> data_Name r = Name poke \<and>
               data_Types r = Types poke \<and> data_Stats r = stats_loop Map.empty (Stats poke) \<and>
               data_Sprite r = Sprites_Other_Official_Front poke \<and>
               data_Evolutions r = fst (fetchEvolutions w1 (Species_URL poke)))) \<and>
         (\<not> has_member tag ms \<longrightarrow> dec_struct (field1 tag d) (JObj ms) z = (z, None)) \<and>
         (\<not> has_member ''base_stat'' ms \<longrightarrow>
            BaseStat (fst (dec_struct stat_entry_field (JObj ms) stat_entry_zero)) = 0) \<and>
         (\<not> has_member ''stat'' ms \<longrightarrow>
            Stat_Name (fst (dec_struct stat_entry_field (JObj ms) stat_entry_zero)) = []) \<and>
         (\<not> has_member ''species'' ms \<longrightarrow>
            Chain_Species_Name (fst (dec_struct chain_root_field (JObj ms) chain_root_zero)) = [] \<and>
            e_Species_Name (fst (dec_struct chain_evolution_field (JObj ms) chain_evolution_zero)) = []) \<and>
         (\<not> has_member ''evolves_to'' ms \<longrightarrow>
            Chain_EvolvesTo (fst (dec_struct chain_root_field (JObj ms) chain_root_zero)) = [] \<and>
            e_EvolvesTo (fst (dec_struct chain_evolution_field (JObj ms) chain_evolution_zero)) = []) \<and>
         (http_Get wa url = (Inr (Document (JObj ms)), wb) \<and> \<not> has_member ''evolution_chain'' ms \<longrightarrow>
            fetchEvolutions wa url = ([], wb)) \<and>
         (http_Get wa url = (Inr resp, wb) \<and>
          http_Get wb (fst (Decode dec_species resp [])) = (Inr (Document (JObj ms)), wc) \<and>
          \<not> has_member ''chain'' ms \<longrightarrow>
            fetchEvolutions wa url = ([[]], wc))"
proof -
  have poke: "poke = fst (dec_members pokeAPIResponse_field kvs pokeAPIResponse_zero)"
    using assms(2) by simp
  have 1: "\<not> has_member ''name'' kvs \<longrightarrow> Name poke = []"
    unfolding poke
    by (simp add: dec_members_frame [where g = Name and tag = "''name''"]
          pokeAPIResponse_field_frame pokeAPIResponse_zero_def)
  have 2: "\<not> has_member ''types'' kvs \<longrightarrow> Types poke = []"
    unfolding poke
    by (simp add: dec_members_frame [where g = Types and tag = "''types''"]
          pokeAPIResponse_field_frame pokeAPIResponse_zero_def)
  have 3: "\<not> has_member ''stats'' kvs \<longrightarrow> Stats poke = []"
    unfolding poke
    by (simp add: dec_members_frame [where g = Stats and tag = "''stats''"]
          pokeAPIResponse_field_frame pokeAPIResponse_zero_def)
  have 4: "\<not> has_member ''sprites'' kvs \<longrightarrow> Sprites_Other_Official_Front poke = []"
    unfolding poke
    by (simp add: dec_members_frame [where g = Sprites_Other_Official_Front and tag = "''sprites''"]
          pokeAPIResponse_field_frame pokeAPIResponse_zero_def)
  have 5: "\<not> has_member ''species'' kvs \<longrightarrow> Species_URL poke = []"
    unfolding poke
    by (simp add: dec_members_frame [where g = Species_URL and tag = "''species''"]
          pokeAPIResponse_field_frame pokeAPIResponse_zero_def)
  have 6: "\<not> has_member ''name'' kvs \<and> \<not> has_member ''types'' kvs \<and> \<not> has_member ''stats'' kvs \<and>
          \<not> has_member ''sprites'' kvs \<and> \<not> has_member ''species'' kvs \<longrightarrow>
            fetchPokemon w pid = ((pokemonData_zero, None), w1)"
    using fetchPokemon_all_absent [OF assms(1)] by blast
  have 7: "err = None \<longrightarrow>
            (\<exists>r w2. fetchPokemon w pid = ((r, None), w2) \<and> data_Name r = Name poke \<and>
               data_Types r = Types poke \<and> data_Stats r = stats_loop Map.empty (Stats poke) \<and>
               data_Sprite r = Sprites_Other_Official_Front poke \<and>
               data_Evolutions r = fst (fetchEvolutions w1 (Species_URL poke)))"
  proof
    assume "err = None"
    with assms(2) have "Decode (dec_struct pokeAPIResponse_field) (Document (JObj kvs))
        pokeAPIResponse_zero = (poke, None)" by simp
    from fetchPokemon_decoded [OF assms(1) this]
    show "\<exists>r w2. fetchPokemon w pid = ((r, None), w2) \<and> data_Name r = Name poke \<and>
               data_Types r = Types poke \<and> data_Stats r = stats_loop Map.empty (Stats poke) \<and>
               data_Sprite r = Sprites_Other_Official_Front poke \<and>
               data_Evolutions r = fst (fetchEvolutions w1 (Species_URL poke))"
      by simp
  qed
  have 8: "\<not> has_member tag ms \<longrightarrow> dec_struct (field1 tag d) (JObj ms) z = (z, None)"
    by (simp add: dec_members_field1_absent)
  have 9: "\<not> has_member ''base_stat'' ms \<longrightarrow>
            BaseStat (fst (dec_struct stat_entry_field (JObj ms) stat_entry_zero)) = 0"
    by (simp add: dec_members_frame [where g = BaseStat and tag = "''base_stat''"]
          stat_entry_field_frame stat_entry_zero_def)
  have 10: "\<not> has_member ''stat'' ms \<longrightarrow>
            Stat_Name (fst (dec_struct stat_entry_field (JObj ms) stat_entry_zero)) = []"
    by (simp add: dec_members_frame [where g = Stat_Name and tag = "''stat''"]
          stat_entry_field_frame stat_entry_zero_def)
  have 11: "\<not> has_member ''species'' ms \<longrightarrow>
            Chain_Species_Name (fst (dec_struct chain_root_field (JObj ms) chain_root_zero)) = [] \<and>
            e_Species_Name (fst (dec_struct chain_evolution_field (JObj ms) chain_evolution_zero)) = []"
    by (simp add: dec_members_frame [where g = Chain_Species_Name and tag = "''species''"]
          dec_members_frame [where g = e_Species_Name and tag = "''species''"]
          chain_root_field_frame chain_evolution_field_frame
          chain_root_zero_def chain_evolution_zero_def)
  have 12: "\<not> has_member ''evolves_to'' ms \<longrightarrow>
            Chain_EvolvesTo (fst (dec_struct chain_root_field (JObj ms) chain_root_zero)) = [] \<and>
            e_EvolvesTo (fst (dec_struct chain_evolution_field (JObj ms) chain_evolution_zero)) = []"
    by (simp add: dec_members_frame [where g = Chain_EvolvesTo and tag = "''evolves_to''"]
          dec_members_frame [where g = e_EvolvesTo and tag = "''evolves_to''"]
          chain_root_field_frame chain_evolution_field_frame
          chain_root_zero_def chain_evolution_zero_def)
  have 13: "http_Get wa url = (Inr (Document (JObj ms)), wb) \<and> \<not> has_member ''evolution_chain'' ms \<longrightarrow>
            fetchEvolutions wa url = ([], wb)"
    using fetchEvolutions_species_absent by blast
  have 14: "http_Get wa url = (Inr resp, wb) \<and>
          http_Get wb (fst (Decode dec_species resp [])) = (Inr (Document (JObj ms)), wc) \<and>
          \<not> has_member ''chain'' ms \<longrightarrow>
            fetchEvolutions wa url = ([[]], wc)"
    using fetchEvolutions_chain_absent by blast
  from 1 2 3 4 5 6 7 8 9 10 11 12 13 14 show ?thesis
    by (intro conjI)
qed

lemma sparse_has_no_member:
  "\<not> has_member ''name'' [(''id'', JNum 1)]" "\<not> has_member ''types'' [(''id'', JNum 1)]"
  "\<not> has_member ''stats'' [(''id'', JNum 1)]" "\<not> has_member ''sprites'' [(''id'', JNum 1)]"
  "\<not> has_member ''species'' [(''id'', JNum 1)]" "\<not> has_member ''chain'' [(''id'', JNum 1)]"
  "\<not> has_member ''evolution_chain'' [(''id'', JNum 1)]"
  by (simp_all add: key_matches_def ascii_upper_def char_of_eq_iff)

theorem absent_fields_take_zero_values_witness:
  "fetchPokemon upstream_sparse 1 = ((pokemonData_zero, None), upstream_sparse\<lparr>clock := Suc 0\<rparr>) \<and>
   fetchEvolutions upstream_sparse_chain ''https://pokeapi.co/api/v2/pokemon-species/1/'' =
     ([[]], upstream_sparse_chain\<lparr>clock := Suc (Suc 0)\<rparr>)"
proof -
  let ?ms = "[(''id'', JNum 1)]"
  let ?url = "''https://pokeapi.co/api/v2/pokemon-species/1/''"
  let ?wb = "upstream_sparse_chain\<lparr>clock := Suc 0\<rparr>"
  let ?wc = "upstream_sparse_chain\<lparr>clock := Suc (Suc 0)\<rparr>"
  have g: "http_Get upstream_sparse (pokemon_url 1) =
      (Inr (Document (JObj ?ms)), upstream_sparse\<lparr>clock := Suc 0\<rparr>)"
    by (simp add: http_Get_nonempty pokemon_url_nonempty)
       (simp add: upstream_sparse_def sparse_doc_def)
  have d: "Decode (dec_struct pokeAPIResponse_field) (Document (JObj ?ms)) pokeAPIResponse_zero
      = (pokeAPIResponse_zero, None)"
    by (simp only: Decode.simps dec_struct.simps
          pokeAPIResponse_all_absent [OF sparse_has_no_member(1,2,3,4,5)])
  have g1: "http_Get upstream_sparse_chain ?url = (Inr (Document species_doc), ?wb)"
    by (simp add: http_Get_def upstream_sparse_chain_def)
  have g2: "http_Get ?wb (fst (Decode dec_species (Document species_doc) [])) =
      (Inr (Document (JObj ?ms)), ?wc)"
    by (simp only: decode_species_doc fst_conv)
       (simp add: http_Get_def upstream_sparse_chain_def sparse_doc_def)
  note t = absent_fields_take_zero_values [OF g d, where ms = ?ms and wa = upstream_sparse_chain
      and url = ?url and resp = "Document species_doc" and wb = ?wb and wc = ?wc]
  note t6 = t [THEN conjunct2, THEN conjunct2, THEN conjunct2, THEN conjunct2, THEN conjunct2,
      THEN conjunct1]
  note t14 = t [THEN conjunct2, THEN conjunct2, THEN conjunct2, THEN conjunct2, THEN conjunct2,
      THEN conjunct2, THEN conjunct2, THEN conjunct2, THEN conjunct2, THEN conjunct2,
      THEN conjunct2, THEN conjunct2, THEN conjunct2]
  have "fetchPokemon upstream_sparse 1 =
      ((pokemonData_zero, None), upstream_sparse\<lparr>clock := Suc 0\<rparr>)"
    by (rule t6 [THEN mp]) (intro conjI sparse_has_no_member)
  moreover have "fetchEvolutions upstream_sparse_chain ?url = ([[]], ?wc)"
    by (rule t14 [THEN mp]) (intro conjI g1 g2 sparse_has_no_member)
  ultimately show ?thesis by (rule conjI)
qed

end
